theory Spec2Isabelle
  imports Main "HOL-Library.Char_ord" "HOL-Library.List_Lexorder" "HOL-Library.Multiset"
begin

section \<open>Python strings\<close>

text \<open>
  A Python \<open>str\<close> is modelled as a \<open>string\<close> whose characters are the code points below
  256 (Latin-1). The string methods the components use are written out below; each follows
  the behaviour of the CPython method of the same name on such strings.
\<close>

definition is_space :: "char \<Rightarrow> bool" where
  \<comment> \<open>\<open>str.isspace\<close> on one character: the set that \<open>str.strip()\<close> removes.\<close>
  "is_space c = ((of_char c :: nat) \<in> {9, 10, 11, 12, 13, 28, 29, 30, 31, 32, 133, 160})"

definition py_lstrip :: "string \<Rightarrow> string" where
  "py_lstrip s = dropWhile is_space s"

definition py_rstrip :: "string \<Rightarrow> string" where
  "py_rstrip s = rev (dropWhile is_space (rev s))"

definition py_strip :: "string \<Rightarrow> string" where
  "py_strip s = py_rstrip (py_lstrip s)"

definition rstrip_chars :: "string \<Rightarrow> string \<Rightarrow> string" where
  \<comment> \<open>\<open>s.rstrip(cs)\<close>: drop trailing characters that occur in \<open>cs\<close>.\<close>
  "rstrip_chars cs s = rev (dropWhile (\<lambda>c. c \<in> set cs) (rev s))"

definition startswith :: "string \<Rightarrow> string \<Rightarrow> bool" where
  \<comment> \<open>\<open>startswith p s\<close> is \<open>s.startswith(p)\<close>.\<close>
  "startswith p s = (take (length p) s = p)"

definition endswith :: "string \<Rightarrow> string \<Rightarrow> bool" where
  \<comment> \<open>\<open>endswith p s\<close> is \<open>s.endswith(p)\<close>.\<close>
  "endswith p s = (length p \<le> length s \<and> drop (length s - length p) s = p)"

fun contains :: "string \<Rightarrow> string \<Rightarrow> bool" where
  \<comment> \<open>\<open>contains sub s\<close> is \<open>sub in s\<close>.\<close>
  "contains sub [] = (sub = [])"
| "contains sub (c # cs) = (startswith sub (c # cs) \<or> contains sub cs)"

fun replace_all :: "string \<Rightarrow> string \<Rightarrow> string \<Rightarrow> string" where
  \<comment> \<open>\<open>replace_all old new s\<close> is \<open>s.replace(old, new)\<close>: leftmost occurrences, not overlapping.\<close>
  "replace_all old new [] = (if old = [] then new else [])"
| "replace_all old new (c # cs) =
     (if old = [] then new @ c # replace_all old new cs
      else if startswith old (c # cs) then new @ replace_all old new (drop (length old - 1) cs)
      else c # replace_all old new cs)"

definition lower_char :: "char \<Rightarrow> char" where
  "lower_char c =
     (let n = (of_char c :: nat)
      in if (65 \<le> n \<and> n \<le> 90) \<or> (192 \<le> n \<and> n \<le> 222 \<and> n \<noteq> 215)
         then char_of (n + 32) else c)"

definition py_lower :: "string \<Rightarrow> string" where
  "py_lower s = map lower_char s"

definition py_upper_char :: "char \<Rightarrow> char" where
  "py_upper_char c =
     (let n = (of_char c :: nat)
      in if 97 \<le> n \<and> n \<le> 122 then char_of (n - 32) else c)"

fun join :: "string \<Rightarrow> string list \<Rightarrow> string" where
  \<comment> \<open>\<open>join sep xs\<close> is \<open>sep.join(xs)\<close>.\<close>
  "join sep [] = []"
| "join sep [x] = x"
| "join sep (x # y # ys) = x @ sep @ join sep (y # ys)"

section \<open>Python values\<close>

text \<open>
  The values that \<open>json.loads\<close> produces, which are also the values the host hands to the
  components: \<open>None\<close>, booleans, integers, strings, lists and dictionaries. A dictionary is
  an association list in insertion order. Numbers are the integers (no floats).
\<close>

datatype json =
    JNull
  | JBool bool
  | JInt int
  | JStr string
  | JArr "json list"
  | JObj "(string \<times> json) list"

fun truthy :: "json \<Rightarrow> bool" where
  \<comment> \<open>Python's truth value, as used by \<open>or\<close>, \<open>not\<close>, \<open>if\<close> and \<open>bool()\<close>.\<close>
  "truthy JNull = False"
| "truthy (JBool b) = b"
| "truthy (JInt n) = (n \<noteq> 0)"
| "truthy (JStr s) = (s \<noteq> [])"
| "truthy (JArr xs) = (xs \<noteq> [])"
| "truthy (JObj kvs) = (kvs \<noteq> [])"

definition py_or :: "json \<Rightarrow> json \<Rightarrow> json" where
  \<comment> \<open>\<open>a or b\<close>\<close>
  "py_or a b = (if truthy a then a else b)"

definition dict_get :: "(string \<times> 'v) list \<Rightarrow> string \<Rightarrow> 'v option" where
  "dict_get d k = map_of d k"

definition jget :: "(string \<times> json) list \<Rightarrow> string \<Rightarrow> json" where
  \<comment> \<open>\<open>d.get(k)\<close>, with \<open>None\<close> for a missing key.\<close>
  "jget d k = (case map_of d k of None \<Rightarrow> JNull | Some v \<Rightarrow> v)"

fun dict_set :: "(string \<times> 'v) list \<Rightarrow> string \<Rightarrow> 'v \<Rightarrow> (string \<times> 'v) list" where
  \<comment> \<open>\<open>d[k] = v\<close>: a key keeps the position of its first insertion.\<close>
  "dict_set [] k v = [(k, v)]"
| "dict_set ((k', v') # d) k v = (if k' = k then (k, v) # d else (k', v') # dict_set d k v)"

definition dict_of_pairs :: "(string \<times> 'v) list \<Rightarrow> (string \<times> 'v) list" where
  \<comment> \<open>The comprehension \<open>{k: v for k, v in pairs}\<close>.\<close>
  "dict_of_pairs pairs = foldl (\<lambda>d (k, v). dict_set d k v) [] pairs"

definition digit_char :: "nat \<Rightarrow> char" where
  "digit_char n = char_of (48 + n)"

function nat_str :: "nat \<Rightarrow> string" where
  "nat_str n = (if n < 10 then [digit_char n] else nat_str (n div 10) @ [digit_char (n mod 10)])"
  by pat_completeness auto
termination
  by (relation "measure (\<lambda>n. n)") auto

definition int_str :: "int \<Rightarrow> string" where
  "int_str i = (if i < 0 then CHR ''-'' # nat_str (nat (- i)) else nat_str (nat i))"

definition hex_char :: "nat \<Rightarrow> char" where
  "hex_char n = (if n < 10 then char_of (48 + n) else char_of (87 + n))"

definition hex2 :: "nat \<Rightarrow> string" where
  "hex2 n = [hex_char (n div 16), hex_char (n mod 16)]"

definition repr_char :: "char \<Rightarrow> char \<Rightarrow> string" where
  \<comment> \<open>One character inside \<open>repr(s)\<close>, for the chosen quote \<open>q\<close>.\<close>
  "repr_char q c =
     (let n = (of_char c :: nat)
      in if c = q \<or> n = 92 then [char_of (92::nat), c]
         else if n = 9 then [char_of (92::nat), CHR ''t'']
         else if n = 10 then [char_of (92::nat), CHR ''n'']
         else if n = 13 then [char_of (92::nat), CHR ''r'']
         else if n < 32 \<or> n = 127 \<or> (128 \<le> n \<and> n \<le> 160) \<or> n = 173
              then [char_of (92::nat), CHR ''x''] @ hex2 n
         else [c])"

definition repr_str :: "string \<Rightarrow> string" where
  \<comment> \<open>\<open>repr(s)\<close>: single quotes, unless the string has a single quote and no double quote.\<close>
  "repr_str s =
     (let q = (if char_of (39::nat) \<in> set s \<and> char_of (34::nat) \<notin> set s
               then char_of (34::nat) else char_of (39::nat))
      in q # concat (map (repr_char q) s) @ [q])"

fun py_repr :: "json \<Rightarrow> string"
  and py_repr_list :: "json list \<Rightarrow> string list"
  and py_repr_items :: "(string \<times> json) list \<Rightarrow> string list" where
  "py_repr JNull = ''None''"
| "py_repr (JBool b) = (if b then ''True'' else ''False'')"
| "py_repr (JInt n) = int_str n"
| "py_repr (JStr s) = repr_str s"
| "py_repr (JArr xs) = ''['' @ join '', '' (py_repr_list xs) @ '']''"
| "py_repr (JObj kvs) = ''{'' @ join '', '' (py_repr_items kvs) @ ''}''"
| "py_repr_list [] = []"
| "py_repr_list (x # xs) = py_repr x # py_repr_list xs"
| "py_repr_items [] = []"
| "py_repr_items ((k, v) # kvs) = (repr_str k @ '': '' @ py_repr v) # py_repr_items kvs"

definition py_str :: "json \<Rightarrow> string" where
  \<comment> \<open>\<open>str(v)\<close>\<close>
  "py_str v = (case v of JStr s \<Rightarrow> s | _ \<Rightarrow> py_repr v)"

definition json_char :: "char \<Rightarrow> string" where
  \<comment> \<open>One character inside a JSON string literal, with \<open>ensure_ascii=False\<close>.\<close>
  "json_char c =
     (let n = (of_char c :: nat)
      in if n = 34 \<or> n = 92 then [char_of (92::nat), c]
         else if n = 8 then [char_of (92::nat), CHR ''b'']
         else if n = 9 then [char_of (92::nat), CHR ''t'']
         else if n = 10 then [char_of (92::nat), CHR ''n'']
         else if n = 12 then [char_of (92::nat), CHR ''f'']
         else if n = 13 then [char_of (92::nat), CHR ''r'']
         else if n < 32 then [char_of (92::nat), CHR ''u'', CHR ''0'', CHR ''0''] @ hex2 n
         else [c])"

definition json_quote :: "string \<Rightarrow> string" where
  "json_quote s = char_of (34::nat) # concat (map json_char s) @ [char_of (34::nat)]"

definition newline_indent :: "nat option \<Rightarrow> nat \<Rightarrow> string" where
  \<comment> \<open>What \<open>json.dumps\<close> writes before an item at nesting depth \<open>lvl\<close>.\<close>
  "newline_indent ind lvl =
     (case ind of None \<Rightarrow> [] | Some k \<Rightarrow> char_of (10::nat) # replicate (k * lvl) CHR '' '')"

definition item_sep :: "nat option \<Rightarrow> nat \<Rightarrow> string" where
  "item_sep ind lvl = (case ind of None \<Rightarrow> '', '' | Some k \<Rightarrow> '','' @ newline_indent ind lvl)"

fun dumps_at :: "nat option \<Rightarrow> nat \<Rightarrow> json \<Rightarrow> string"
  and dumps_list :: "nat option \<Rightarrow> nat \<Rightarrow> json list \<Rightarrow> string list"
  and dumps_items :: "nat option \<Rightarrow> nat \<Rightarrow> (string \<times> json) list \<Rightarrow> string list" where
  "dumps_at ind lvl JNull = ''null''"
| "dumps_at ind lvl (JBool b) = (if b then ''true'' else ''false'')"
| "dumps_at ind lvl (JInt n) = int_str n"
| "dumps_at ind lvl (JStr s) = json_quote s"
| "dumps_at ind lvl (JArr xs) =
     (if xs = [] then ''[]''
      else ''['' @ newline_indent ind (Suc lvl)
           @ join (item_sep ind (Suc lvl)) (dumps_list ind (Suc lvl) xs)
           @ newline_indent ind lvl @ '']'')"
| "dumps_at ind lvl (JObj kvs) =
     (if kvs = [] then ''{}''
      else ''{'' @ newline_indent ind (Suc lvl)
           @ join (item_sep ind (Suc lvl)) (dumps_items ind (Suc lvl) kvs)
           @ newline_indent ind lvl @ ''}'')"
| "dumps_list ind lvl [] = []"
| "dumps_list ind lvl (x # xs) = dumps_at ind lvl x # dumps_list ind lvl xs"
| "dumps_items ind lvl [] = []"
| "dumps_items ind lvl ((k, v) # kvs) =
     (json_quote k @ '': '' @ dumps_at ind lvl v) # dumps_items ind lvl kvs"

definition json_dumps :: "json \<Rightarrow> string" where
  \<comment> \<open>\<open>json.dumps(v, ensure_ascii=False)\<close>\<close>
  "json_dumps v = dumps_at None 0 v"

definition json_dumps_indent2 :: "json \<Rightarrow> string" where
  \<comment> \<open>\<open>json.dumps(v, ensure_ascii=False, indent=2)\<close>\<close>
  "json_dumps_indent2 v = dumps_at (Some 2) 0 v"

section \<open>CoE model picker\<close>

subsection \<open>Exceptions and the network\<close>

text \<open>
  The exceptions that can reach the component. \<open>urlopen\<close> raises \<open>HTTPError\<close> (with the
  status) for an HTTP error status, \<open>URLError\<close> for a failure to reach the server,
  \<open>OSError\<close> and \<open>socket.gaierror\<close> for socket and name-resolution failures;
  \<open>json.loads\<close> and \<open>decode\<close> raise a \<open>ValueError\<close>. The other constructors are the
  exceptions raised by operations on values of the wrong type.
\<close>

datatype exn =
    HTTPError nat
  | URLError
  | OSError
  | Gaierror
  | ValueError
  | AttributeError
  | TypeError
  | IndexError
  | KeyError

fun is_os_error :: "exn \<Rightarrow> bool" where
  \<comment> \<open>The handler \<open>except (URLError, OSError, socket.gaierror)\<close>: in the standard library
      \<open>HTTPError\<close> is a subclass of \<open>URLError\<close>, and \<open>URLError\<close> and \<open>gaierror\<close> are
      subclasses of \<open>OSError\<close>.\<close>
  "is_os_error (HTTPError _) = True"
| "is_os_error URLError = True"
| "is_os_error OSError = True"
| "is_os_error Gaierror = True"
| "is_os_error _ = False"

fun is_transport_failure :: "exn \<Rightarrow> bool" where
  \<comment> \<open>Connection refused, name resolution failure, general I/O error.\<close>
  "is_transport_failure URLError = True"
| "is_transport_failure OSError = True"
| "is_transport_failure Gaierror = True"
| "is_transport_failure _ = False"

record http_request =
  req_method :: string
  req_url :: string
  req_body :: "json option"

text \<open>
  The network answers the \<open>n\<close>-th request of a run with an exception or with the decoded
  JSON body. The component instance carries its three attributes; \<open>sent\<close> is the list of
  requests it has issued so far, as the network layer sees them.
\<close>

type_synonym network = "nat \<Rightarrow> http_request \<Rightarrow> exn + json"

record picker =
  name_to_id :: "(string \<times> string) list"
  last_text :: "string option"
  did_initial_fetch :: bool
  sent :: "http_request list"

definition init_picker :: picker where
  "init_picker = \<lparr>name_to_id = [], last_text = None, did_initial_fetch = False, sent = []\<rparr>"

definition get_request :: "string \<Rightarrow> http_request" where
  "get_request url = \<lparr>req_method = ''GET'', req_url = url, req_body = None\<rparr>"

definition post_request :: "string \<Rightarrow> json \<Rightarrow> http_request" where
  "post_request url payload = \<lparr>req_method = ''POST'', req_url = url, req_body = Some payload\<rparr>"

definition http_get_json :: "network \<Rightarrow> string \<Rightarrow> picker \<Rightarrow> (exn + json) \<times> picker" where
  "http_get_json net url s =
     (let rq = get_request url
      in (net (length (sent s)) rq, s\<lparr>sent := sent s @ [rq]\<rparr>))"

definition http_post_json :: "network \<Rightarrow> string \<Rightarrow> json \<Rightarrow> picker \<Rightarrow> (exn + json) \<times> picker" where
  "http_post_json net url payload s =
     (let rq = post_request url payload
      in (net (length (sent s)) rq, s\<lparr>sent := sent s @ [rq]\<rparr>))"

subsection \<open>Helpers\<close>

definition ALLOWED_OWNERS :: "string set" where
  "ALLOWED_OWNERS = {''openai'', ''sktax''}"

text \<open>
  \<open>DEFAULT_BACKEND\<close> is read from the environment when the module is loaded; it is the
  parameter \<open>dflt\<close> of the functions below.
\<close>

definition normalize_str :: "string \<Rightarrow> bool \<Rightarrow> string" where
  \<comment> \<open>\<open>_normalize\<close> after \<open>base or DEFAULT_BACKEND\<close>, on a string.\<close>
  "normalize_str b0 force =
     (let b = py_strip b0;
          b' = (if force \<and> startswith ''http://'' b
                then ''https://'' @ drop (length ''http://'') b else b)
      in rstrip_chars ''/'' b')"

definition normalize :: "string \<Rightarrow> json \<Rightarrow> bool \<Rightarrow> exn + string" where
  \<comment> \<open>\<open>_normalize(base, force_https)\<close>; \<open>.strip()\<close> on a value that is not a string raises.\<close>
  "normalize dflt base force =
     (case py_or base (JStr dflt) of
        JStr b0 \<Rightarrow> Inr (normalize_str b0 force)
      | _ \<Rightarrow> Inl AttributeError)"

definition linux_fallback :: "string \<Rightarrow> string" where
  "linux_fallback base =
     (if contains ''host.docker.internal'' base
      then replace_all ''host.docker.internal'' ''172.17.0.1'' base else base)"

definition fallback_pairs :: "(string \<times> string) list" where
  "fallback_pairs =
     [(''GPT-4o Mini'', ''gpt-4o-mini''),
      (''GPT-4o'', ''gpt-4o''),
      (''text-embedding-3-small'', ''text-embedding-3-small''),
      (''AX4 Model'', ''ax4'')]"

subsection \<open>Discovery\<close>

definition item_owner :: "(string \<times> json) list \<Rightarrow> string" where
  "item_owner d = py_lower (py_strip (py_str (py_or (jget d ''owned_by'') (JStr []))))"

definition item_id :: "(string \<times> json) list \<Rightarrow> string" where
  "item_id d = py_strip (py_str (py_or (jget d ''id'') (JStr [])))"

definition item_name :: "(string \<times> json) list \<Rightarrow> string" where
  "item_name d = py_strip (py_str (py_or (jget d ''name'') (JStr (item_id d))))"

definition pair_of_item :: "json \<Rightarrow> (string \<times> string) option" where
  \<comment> \<open>The body of the loop over \<open>data\<close>: \<open>None\<close> where the loop skips the item.\<close>
  "pair_of_item item =
     (case item of
        JObj d \<Rightarrow>
          (if item_owner d \<notin> ALLOWED_OWNERS then None
           else if item_id d \<noteq> [] \<and> item_name d \<noteq> [] then Some (item_name d, item_id d)
           else None)
      | _ \<Rightarrow> None)"

fun collect_pairs :: "json list \<Rightarrow> (string \<times> string) list" where
  "collect_pairs [] = []"
| "collect_pairs (item # rest) =
     (case pair_of_item item of
        None \<Rightarrow> collect_pairs rest
      | Some p \<Rightarrow> p # collect_pairs rest)"

definition iter_items :: "json \<Rightarrow> exn + json list" where
  \<comment> \<open>What \<open>for item in data\<close> iterates over: the elements of a list, the keys of a
      dictionary, the characters of a string; other values are not iterable.\<close>
  "iter_items data =
     (case data of
        JArr xs \<Rightarrow> Inr xs
      | JObj kvs \<Rightarrow> Inr (map (\<lambda>kv. JStr (fst kv)) kvs)
      | JStr cs \<Rightarrow> Inr (map (\<lambda>c. JStr [c]) cs)
      | _ \<Rightarrow> Inl TypeError)"

definition payload_data :: "json \<Rightarrow> exn + json" where
  \<comment> \<open>\<open>(payload.get("result") or {}).get("data") or payload.get("data") or []\<close>\<close>
  "payload_data payload =
     (case payload of
        JObj p \<Rightarrow>
          (case py_or (jget p ''result'') (JObj []) of
             JObj r \<Rightarrow> Inr (py_or (py_or (jget r ''data'') (jget p ''data'')) (JArr []))
           | _ \<Rightarrow> Inl AttributeError)
      | _ \<Rightarrow> Inl AttributeError)"

definition models_of_payload :: "json \<Rightarrow> exn + (string \<times> string) list" where
  \<comment> \<open>\<open>_fetch_models\<close> after the request: filter, then the stable sort by lowercased name.\<close>
  "models_of_payload payload =
     (case payload_data payload of
        Inl e \<Rightarrow> Inl e
      | Inr data \<Rightarrow>
          (case iter_items data of
             Inl e \<Rightarrow> Inl e
           | Inr items \<Rightarrow> Inr (sort_key (\<lambda>x. py_lower (fst x)) (collect_pairs items))))"

definition fetch_models ::
  "network \<Rightarrow> string \<Rightarrow> picker \<Rightarrow> (exn + (string \<times> string) list) \<times> picker" where
  "fetch_models net base_url s =
     (let url = base_url @ ''/v1/models'';
          (r1, s1) = http_get_json net url s
      in case r1 of
           Inr payload \<Rightarrow> (models_of_payload payload, s1)
         | Inl e \<Rightarrow>
             (if is_os_error e
              then (let fb = linux_fallback base_url @ ''/v1/models'';
                        (r2, s2) = http_get_json net fb s1
                    in case r2 of
                         Inr payload \<Rightarrow> (models_of_payload payload, s2)
                       | Inl e2 \<Rightarrow> (Inl e2, s2))
              else (Inl e, s1)))"

subsection \<open>The dropdown refresh\<close>

text \<open>
  The host's build configuration: the \<open>value\<close> of the \<open>backend_url\<close>, \<open>force_https\<close> and
  \<open>refresh_now\<close> entries (\<open>None\<close> when the entry is absent) and the \<open>model_name\<close> dropdown
  with its options and its value (an absent or empty list of options is \<open>[]\<close>, an absent
  or empty value is the empty string).
\<close>

record dropdown =
  dd_options :: "string list"
  dd_value :: string

record build_config =
  bc_backend_url :: "json option"
  bc_force_https :: "json option"
  bc_model_name :: "dropdown option"
  bc_refresh_now :: "json option"

definition set_model_names :: "string list \<Rightarrow> string \<Rightarrow> build_config \<Rightarrow> exn + build_config" where
  \<comment> \<open>\<open>build_config["model_name"]["options"] = names\<close>, then the value is set to
      \<open>names[0]\<close> if the current one is empty or not among the names.\<close>
  "set_model_names names current_value bc =
     (case bc_model_name bc of
        None \<Rightarrow> Inl KeyError
      | Some d \<Rightarrow>
          (if current_value = [] \<or> current_value \<notin> set names
           then (case names of
                   [] \<Rightarrow> Inl IndexError
                 | n # _ \<Rightarrow> Inr (bc\<lparr>bc_model_name := Some (d\<lparr>dd_options := names, dd_value := n\<rparr>)\<rparr>))
           else Inr (bc\<lparr>bc_model_name := Some (d\<lparr>dd_options := names\<rparr>)\<rparr>)))"

definition should_refresh :: "picker \<Rightarrow> build_config \<Rightarrow> string option \<Rightarrow> bool" where
  "should_refresh s bc field_name =
     (let current_options = (case bc_model_name bc of None \<Rightarrow> [] | Some d \<Rightarrow> dd_options d);
          current_value = (case bc_model_name bc of None \<Rightarrow> [] | Some d \<Rightarrow> dd_value d)
      in \<not> did_initial_fetch s
         \<or> field_name \<in> {Some ''backend_url'', Some ''force_https'', Some ''refresh_now''}
         \<or> current_options = []
         \<or> current_value = ''(click Refresh models now)'')"

definition use_fallback :: "string \<Rightarrow> build_config \<Rightarrow> picker \<Rightarrow> (exn + build_config) \<times> picker" where
  \<comment> \<open>The statements shared by the \<open>else\<close> branch and the \<open>except\<close> handler.\<close>
  "use_fallback current_value bc s =
     (let pairs = fallback_pairs;
          s1 = s\<lparr>name_to_id := dict_of_pairs pairs\<rparr>;
          names = map fst pairs
      in case set_model_names names current_value bc of
           Inl e \<Rightarrow> (Inl e, s1)
         | Inr bc' \<Rightarrow> (Inr bc', s1\<lparr>did_initial_fetch := True\<rparr>))"

definition refresh_try ::
  "network \<Rightarrow> string \<Rightarrow> string \<Rightarrow> build_config \<Rightarrow> picker \<Rightarrow> (exn + build_config) \<times> picker" where
  \<comment> \<open>The body of the \<open>try\<close>.\<close>
  "refresh_try net base current_value bc s =
     (let (r, s1) = fetch_models net base s
      in case r of
           Inl e \<Rightarrow> (Inl e, s1)
         | Inr pairs \<Rightarrow>
             (if pairs \<noteq> []
              then (let s2 = s1\<lparr>name_to_id := dict_of_pairs pairs\<rparr>;
                        names = map fst (name_to_id s2)
                    in case set_model_names names current_value bc of
                         Inl e \<Rightarrow> (Inl e, s2)
                       | Inr bc' \<Rightarrow> (Inr bc', s2\<lparr>did_initial_fetch := True\<rparr>))
              else use_fallback current_value bc s1))"

definition refresh_base :: "string \<Rightarrow> build_config \<Rightarrow> json \<Rightarrow> string option \<Rightarrow> exn + string" where
  \<comment> \<open>The first lines of \<open>update_build_config\<close>, up to \<open>base = self._normalize(...)\<close>.\<close>
  "refresh_base dflt bc field_value field_name =
     (let current_base =
            (if field_name = Some ''backend_url'' then field_value
             else (case bc_backend_url bc of None \<Rightarrow> JStr dflt | Some v \<Rightarrow> v));
          current_force_https =
            (if field_name = Some ''force_https'' then truthy field_value
             else (case bc_force_https bc of None \<Rightarrow> False | Some v \<Rightarrow> truthy v))
      in normalize dflt current_base current_force_https)"

definition update_build_config ::
  "string \<Rightarrow> network \<Rightarrow> build_config \<Rightarrow> json \<Rightarrow> string option \<Rightarrow> picker
     \<Rightarrow> (exn + build_config) \<times> picker" where
  "update_build_config dflt net bc field_value field_name s =
     (case refresh_base dflt bc field_value field_name of
           Inl e \<Rightarrow> (Inl e, s)
         | Inr base \<Rightarrow>
             (let current_value = (case bc_model_name bc of None \<Rightarrow> [] | Some d \<Rightarrow> dd_value d)
              in if should_refresh s bc field_name
                 then (let (r, s1) =
                             (case refresh_try net base current_value bc s of
                                (Inl e, s') \<Rightarrow> use_fallback current_value bc s'
                              | (Inr bc', s') \<Rightarrow> (Inr bc', s'))
                       in case r of
                            Inl e \<Rightarrow> (Inl e, s1)
                          | Inr bc1 \<Rightarrow>
                              (Inr (case bc_refresh_now bc1 of
                                      None \<Rightarrow> bc1
                                    | Some _ \<Rightarrow> bc1\<lparr>bc_refresh_now := Some (JBool False)\<rparr>), s1))
                 else (Inr bc, s)))"

subsection \<open>Invocation\<close>

record chat_args =
  chat_input :: string
  prompt :: string
  model_name :: string
  backend_url :: string
  force_https :: bool
  enable_tools :: bool
  tool_choice_auto :: bool

definition index0 :: "json \<Rightarrow> exn + json" where
  \<comment> \<open>\<open>v[0]\<close>\<close>
  "index0 v =
     (case v of
        JArr xs \<Rightarrow> (case xs of [] \<Rightarrow> Inl IndexError | x # _ \<Rightarrow> Inr x)
      | JStr cs \<Rightarrow> (case cs of [] \<Rightarrow> Inl IndexError | c # _ \<Rightarrow> Inr (JStr [c]))
      | JObj kvs \<Rightarrow> Inl KeyError
      | _ \<Rightarrow> Inl TypeError)"

definition response_content :: "json \<Rightarrow> exn + string" where
  \<comment> \<open>The body of the \<open>try\<close> that reads \<open>choices[0].message.content\<close>; \<open>.get\<close> on a value
      that is not a dictionary raises \<open>AttributeError\<close>.\<close>
  "response_content resp =
     (case resp of
        JObj d \<Rightarrow>
          (case index0 (py_or (jget d ''choices'') (JArr [])) of
             Inl e \<Rightarrow> Inl e
           | Inr choice0 \<Rightarrow>
               (case choice0 of
                  JObj c \<Rightarrow>
                    (case py_or (jget c ''message'') (JObj []) of
                       JObj m \<Rightarrow> Inr (py_str (py_or (jget m ''content'') (JStr [])))
                     | _ \<Rightarrow> Inl AttributeError)
                | _ \<Rightarrow> Inl AttributeError))
      | _ \<Rightarrow> Inl AttributeError)"

definition parse_response :: "json \<Rightarrow> string" where
  \<comment> \<open>The \<open>try\<close>/\<open>except Exception\<close> around the extraction.\<close>
  "parse_response resp =
     (case response_content resp of
        Inr content \<Rightarrow> content
      | Inl _ \<Rightarrow> take 2000 (json_dumps resp))"

definition resolve_model_id :: "picker \<Rightarrow> string \<Rightarrow> string" where
  "resolve_model_id s name =
     (let model_id = (case map_of (name_to_id s) name of None \<Rightarrow> [] | Some i \<Rightarrow> i)
      in if model_id = []
         then (case fallback_pairs of [] \<Rightarrow> model_id | p # _ \<Rightarrow> snd p)
         else model_id)"

definition chat_message :: "string \<Rightarrow> string \<Rightarrow> json" where
  "chat_message role content = JObj [(''role'', JStr role), (''content'', JStr content)]"

definition chat_payload :: "json list \<Rightarrow> chat_args \<Rightarrow> picker \<Rightarrow> json" where
  \<comment> \<open>The request body; \<open>tools\<close> is what \<open>_build_tools_payload()\<close> returns.\<close>
  "chat_payload tools a s =
     (let model_id = resolve_model_id s (model_name a);
          messages = (if prompt a \<noteq> [] then [chat_message ''system'' (prompt a)] else [])
                     @ [chat_message ''user'' (chat_input a)]
      in JObj ([(''model'', JStr (if model_id \<noteq> [] then model_id else model_name a)),
                (''messages'', JArr messages)]
               @ (if enable_tools a \<and> tools \<noteq> []
                  then (''tools'', JArr tools)
                       # (if tool_choice_auto a then [(''tool_choice'', JStr ''auto'')] else [])
                  else [])))"

definition post_chat ::
  "network \<Rightarrow> string \<Rightarrow> json \<Rightarrow> picker \<Rightarrow> (exn + json) \<times> picker" where
  \<comment> \<open>The POST and its handler.\<close>
  "post_chat net base payload s =
     (let url = base @ ''/v1/chat/completions'';
          fb = linux_fallback base;
          (r1, s1) = http_post_json net url payload s
      in case r1 of
           Inr resp \<Rightarrow> (Inr resp, s1)
         | Inl e \<Rightarrow>
             (if is_os_error e
              then (if base \<noteq> fb
                    then http_post_json net (fb @ ''/v1/chat/completions'') payload s1
                    else (Inl e, s1))
              else (Inl e, s1)))"

definition call_chat ::
  "string \<Rightarrow> network \<Rightarrow> json list \<Rightarrow> chat_args \<Rightarrow> picker \<Rightarrow> (exn + string) \<times> picker" where
  "call_chat dflt net tools a s =
     (case last_text s of
        Some t \<Rightarrow> (Inr t, s)
      | None \<Rightarrow>
          (case normalize dflt (JStr (if backend_url a \<noteq> [] then backend_url a else dflt))
                  (force_https a) of
             Inl e \<Rightarrow> (Inl e, s)
           | Inr base \<Rightarrow>
               (let (r, s1) = post_chat net base (chat_payload tools a s) s
                in case r of
                     Inl e \<Rightarrow> (Inl e, s1)
                   | Inr resp \<Rightarrow>
                       (let t = parse_response resp
                        in (Inr t, s1\<lparr>last_text := Some t\<rparr>)))))"

definition get_model_id :: "picker \<Rightarrow> string \<Rightarrow> string" where
  \<comment> \<open>\<open>get_model_id()\<close>, with the component's \<open>model_name\<close> attribute as argument.\<close>
  "get_model_id s model_name_attr =
     (case map_of (name_to_id s) (py_strip model_name_attr) of None \<Rightarrow> [] | Some i \<Rightarrow> i)"

subsection \<open>Observations\<close>

text \<open>
  The states an instance can be in: a fresh instance has the class defaults, and the
  host changes it only through \<open>update_build_config\<close> and through the output methods,
  which call \<open>_call_chat\<close>.
\<close>

inductive reachable :: "picker \<Rightarrow> bool" where
  fresh: "reachable (init_picker\<lparr>sent := reqs\<rparr>)"
| refresh: "reachable s \<Longrightarrow> update_build_config dflt net bc fv fn s = (r, s') \<Longrightarrow> reachable s'"
| chat: "reachable s \<Longrightarrow> call_chat dflt net tools a s = (r, s') \<Longrightarrow> reachable s'"

definition payload_model :: "json \<Rightarrow> json" where
  \<comment> \<open>The \<open>model\<close> field of a request body.\<close>
  "payload_model body = (case body of JObj d \<Rightarrow> jget d ''model'' | _ \<Rightarrow> JNull)"

definition new_requests :: "picker \<Rightarrow> picker \<Rightarrow> http_request list" where
  \<comment> \<open>The requests issued between two states.\<close>
  "new_requests s s' = drop (length (sent s)) (sent s')"

definition chat_base :: "string \<Rightarrow> chat_args \<Rightarrow> string" where
  \<comment> \<open>The normalised base URL that \<open>_call_chat\<close> posts to.\<close>
  "chat_base dflt a =
     normalize_str (if backend_url a \<noteq> [] then backend_url a else dflt) (force_https a)"

definition first_choice :: "json \<Rightarrow> json option" where
  \<comment> \<open>The element \<open>choices[0]\<close> of a response that is an object with a non-empty list
      of choices.\<close>
  "first_choice resp =
     (case resp of
        JObj d \<Rightarrow> (case jget d ''choices'' of JArr (c # _) \<Rightarrow> Some c | _ \<Rightarrow> None)
      | _ \<Rightarrow> None)"

section \<open>Tool invoker: URL join\<close>

text \<open>
  \<open>ToolInvokerFromSelectionMin._join_url(base, path, default_prefix)\<close>. \<open>base or ""\<close> is the
  identity on a string, and \<open>path or "/"\<close> replaces the empty path by \<open>"/"\<close>.
\<close>

definition join_url :: "string \<Rightarrow> string \<Rightarrow> string \<Rightarrow> string" where
  "join_url base path default_prefix =
     (let b = rstrip_chars ''/'' base;
          p0 = py_strip (if path = [] then ''/'' else path);
          p = (if \<not> startswith ''/'' p0 then ''/'' @ p0 else p0);
          final_path =
            (if startswith ''/tools/'' p \<or> p = ''/tools'' then p
             else (if \<not> startswith (rstrip_chars ''/'' default_prefix @ ''/'') p
                   then rstrip_chars ''/'' default_prefix @ p else p))
      in b @ final_path)"

text \<open>
  \<open>ToolPickerDropdownSafeMessage._run\<close> hands the invoker its selection with
  \<open>"base_url": f"{base}/tools"\<close>, where \<open>base\<close> is the normalised backend URL.
\<close>

definition picker_base_url :: "string \<Rightarrow> string" where
  "picker_base_url base = base @ ''/tools''"

section \<open>Tool invoker: the call\<close>

text \<open>
  A \<open>requests\<close> response: its status, its text, its body as \<open>resp.json()\<close> decodes it
  (\<open>None\<close> when decoding raises) and the text of the \<open>HTTPError\<close> that
  \<open>raise_for_status()\<close> raises for it. The network answers the \<open>n\<close>-th request with a
  response, or the call raises an exception that is not an \<open>HTTPError\<close> (connection error,
  timeout), given by its text.
\<close>

record response =
  status_code :: nat
  resp_text :: string
  resp_json :: "json option"
  http_error_str :: string

record tool_request =
  tr_method :: string
  tr_url :: string
  tr_params :: "(string \<times> json) list option"
  tr_json :: "json option"

type_synonym tool_network = "nat \<Rightarrow> tool_request \<Rightarrow> string + response"

text \<open>
  The request payload has an optional \<open>input\<close> string and optional \<open>params\<close>; the
  \<open>params_json\<close> field, when it holds valid JSON, is taken to hold a JSON object, as its
  description says.
\<close>

record tool_payload =
  tp_input :: "string option"
  tp_params :: "(string \<times> json) list option"

definition payload_json :: "tool_payload \<Rightarrow> json" where
  "payload_json p =
     JObj ((case tp_input p of None \<Rightarrow> [] | Some t \<Rightarrow> [(''input'', JStr t)])
           @ (case tp_params p of None \<Rightarrow> [] | Some d \<Rightarrow> [(''params'', JObj d)]))"

definition tool_request_of :: "string \<Rightarrow> string \<Rightarrow> tool_payload \<Rightarrow> tool_request" where
  \<comment> \<open>The request that \<open>_call(method, url, payload)\<close> issues: \<open>requests.get\<close> with query
      parameters for GET, \<open>requests.request\<close> with a JSON body otherwise.\<close>
  "tool_request_of method url p =
     (if method = ''GET''
      then (let params0 = (case tp_params p of None \<Rightarrow> [] | Some d \<Rightarrow> d);
                params = (case tp_input p of
                            None \<Rightarrow> params0
                          | Some t \<Rightarrow>
                              (if ''input'' \<notin> fst ` set params0
                               then dict_set params0 ''input'' (JStr t) else params0))
            in \<lparr>tr_method = ''GET'', tr_url = url, tr_params = Some params, tr_json = None\<rparr>)
      else \<lparr>tr_method = method, tr_url = url, tr_params = None,
            tr_json = Some (payload_json p)\<rparr>)"

definition tool_call ::
  "tool_network \<Rightarrow> string \<Rightarrow> string \<Rightarrow> tool_payload \<Rightarrow> tool_request list
     \<Rightarrow> (string + response) \<times> tool_request list" where
  \<comment> \<open>\<open>_call(method, url, payload)\<close>\<close>
  "tool_call net method url p reqs =
     (let rq = tool_request_of method url p
      in (net (length reqs) rq, reqs @ [rq]))"

definition raises_for_status :: "response \<Rightarrow> bool" where
  \<comment> \<open>\<open>raise_for_status()\<close> raises for the client and server error statuses.\<close>
  "raises_for_status r = (400 \<le> status_code r \<and> status_code r < 600)"

definition request_info :: "string \<Rightarrow> string \<Rightarrow> json \<Rightarrow> (string \<times> json) list" where
  "request_info method url tool_name =
     [(''method'', JStr method), (''url'', JStr url), (''tool'', tool_name)]"

definition success_text :: "(string \<times> json) list \<Rightarrow> response \<Rightarrow> string" where
  \<comment> \<open>The text of a call that succeeded: the decoded body, or the raw text when
      \<open>resp.json()\<close> raises.\<close>
  "success_text req r =
     (case resp_json r of
        Some body \<Rightarrow> json_dumps_indent2 (JObj [(''request'', JObj req), (''response'', body)])
      | None \<Rightarrow>
          json_dumps_indent2 (JObj [(''request'', JObj req), (''response_text'', JStr (resp_text r))]))"

definition http_error_text :: "string \<Rightarrow> string \<Rightarrow> json \<Rightarrow> response \<Rightarrow> string" where
  "http_error_text method url tool_name r =
     json_dumps_indent2
       (JObj [(''error'', JStr ''http_error''),
              (''status'', JInt (int (status_code r))),
              (''request'', JObj (request_info method url tool_name)),
              (''detail'', JStr (http_error_str r)),
              (''body_preview'', JStr (resp_text r))])"

definition fallback_failed_text :: "string \<Rightarrow> string \<Rightarrow> nat \<Rightarrow> string \<Rightarrow> string \<Rightarrow> string" where
  "fallback_failed_text method url status url2 err =
     json_dumps_indent2
       (JObj [(''error'', JStr ''HTTP 404 and trailing-slash fallback failed''),
              (''first_try'', JObj [(''method'', JStr method), (''url'', JStr url),
                                    (''status'', JInt (int status))]),
              (''second_try'', JObj [(''url'', JStr url2), (''error'', JStr err)])])"

definition request_failed_text :: "string \<Rightarrow> string \<Rightarrow> json \<Rightarrow> string \<Rightarrow> string" where
  "request_failed_text method url tool_name err =
     json_dumps_indent2
       (JObj [(''error'', JStr ''request_failed''),
              (''request'', JObj (request_info method url tool_name)),
              (''detail'', JStr err)])"

definition invoke_request ::
  "tool_network \<Rightarrow> string \<Rightarrow> string \<Rightarrow> tool_payload \<Rightarrow> json \<Rightarrow> tool_request list
     \<Rightarrow> string \<times> tool_request list" where
  \<comment> \<open>The \<open>try\<close> of \<open>_invoke_core\<close> with its two handlers.\<close>
  "invoke_request net method url p tool_name reqs =
     (let (r1, reqs1) = tool_call net method url p reqs
      in case r1 of
           Inl err \<Rightarrow> (request_failed_text method url tool_name err, reqs1)
         | Inr resp \<Rightarrow>
             (if \<not> raises_for_status resp
              then (success_text (request_info method url tool_name) resp, reqs1)
              else (let status = status_code resp
                    in if status = 404 \<and> \<not> endswith ''/'' url
                       then (let url2 = url @ ''/'';
                                 (r2, reqs2) = tool_call net method url2 p reqs1
                             in case r2 of
                                  Inl err2 \<Rightarrow>
                                    (fallback_failed_text method url status url2 err2, reqs2)
                                | Inr resp2 \<Rightarrow>
                                    (if raises_for_status resp2
                                     then (fallback_failed_text method url status url2
                                             (http_error_str resp2), reqs2)
                                     else (success_text
                                             (request_info method url2 tool_name
                                              @ [(''fallback'', JStr ''trailing-slash'')]) resp2,
                                           reqs2)))
                       else (http_error_text method url tool_name resp, reqs1))))"

text \<open>
  The inputs of \<open>_invoke_core\<close>: what \<open>_extract_selection\<close> returns for the
  \<open>selection_json\<close> attribute (an error text or the selection) with the name of the
  attribute's type, what \<open>_extract_user_text\<close> returns for \<open>user_input\<close>, the
  \<open>params_json\<close> attribute (empty after trimming, not valid JSON, or an object), and the two
  advanced settings.
\<close>

datatype params_input = NoParams | BadParams | Params "(string \<times> json) list"

record invoker_inputs =
  selection :: "string + (string \<times> json) list"
  raw_type :: string
  user_text :: string
  params :: params_input
  method_override :: string
  force_get_query :: bool

definition get_default :: "(string \<times> json) list \<Rightarrow> string \<Rightarrow> json \<Rightarrow> json" where
  \<comment> \<open>\<open>d.get(k, default)\<close>\<close>
  "get_default d k dv = (case map_of d k of None \<Rightarrow> dv | Some v \<Rightarrow> v)"

definition effective_method :: "string \<Rightarrow> bool \<Rightarrow> string" where
  \<comment> \<open>Upper-casing only matters for the comparison with the five method names, which
      are ASCII.\<close>
  "effective_method mo force_get =
     (let m = map py_upper_char (py_strip (if mo = [] then ''POST'' else mo));
          method = (if m \<notin> {''GET'', ''POST'', ''PUT'', ''PATCH'', ''DELETE''} then ''POST'' else m)
      in if force_get then ''GET'' else method)"

definition invoke_core ::
  "tool_network \<Rightarrow> invoker_inputs \<Rightarrow> tool_request list
     \<Rightarrow> (exn + string \<times> json) \<times> tool_request list" where
  "invoke_core net inp reqs =
     (case selection inp of
        Inl err \<Rightarrow>
          (Inr (json_dumps (JObj [(''error'', JStr err), (''raw_type'', JStr (raw_type inp))]),
                JStr []), reqs)
      | Inr sel \<Rightarrow>
          (case (get_default sel ''base_url'' (JStr []), get_default sel ''url_path'' (JStr [])) of
             (JStr b0, JStr u0) \<Rightarrow>
               (let base_url = py_strip b0;
                    url_path = py_strip u0;
                    tool_name = get_default sel ''name'' (JStr []);
                    tool_out = py_or tool_name (JStr [])
                in if base_url = [] \<or> url_path = []
                   then (Inr (json_dumps
                                (JObj [(''error'', JStr ''missing base_url or url_path in selection_json''),
                                       (''selection'', JObj sel)]), tool_out), reqs)
                   else (case params inp of
                           BadParams \<Rightarrow>
                             (Inr (json_dumps (JObj [(''error'', JStr ''params_json not valid JSON'')]),
                                   tool_out), reqs)
                         | pj \<Rightarrow>
                             (let p = \<lparr>tp_input = (if py_strip (user_text inp) \<noteq> []
                                                    then Some (user_text inp) else None),
                                       tp_params = (case pj of Params d \<Rightarrow> Some d | _ \<Rightarrow> None)\<rparr>;
                                  method_eff = effective_method (method_override inp)
                                                 (force_get_query inp);
                                  url = join_url base_url url_path ''/tools'';
                                  (text, reqs1) = invoke_request net method_eff url p tool_name reqs
                              in (Inr (text, tool_out), reqs1))))
           | _ \<Rightarrow> (Inl AttributeError, reqs)))"

section \<open>Tool picker router\<close>

text \<open>
  The router's build configuration: the \<open>value\<close> of the \<open>tool_message\<close> entry (\<open>None\<close>
  when absent) and the \<open>key_for_prompt\<close> dropdown (\<open>None\<close> when the entry is absent).
  \<open>json.loads\<close> is the parameter \<open>loads\<close>, with \<open>None\<close> where it raises.
\<close>

record router_config =
  rc_tool_message :: "json option"
  rc_key_for_prompt :: "dropdown option"

definition str_nonblank :: "json \<Rightarrow> string option" where
  \<comment> \<open>\<open>isinstance(v, str) and v.strip()\<close>\<close>
  "str_nonblank v = (case v of JStr t \<Rightarrow> (if py_strip t \<noteq> [] then Some t else None) | _ \<Rightarrow> None)"

definition extract_json_keys_from_candidate ::
  "(string \<Rightarrow> json option) \<Rightarrow> json \<Rightarrow> string list" where
  "extract_json_keys_from_candidate loads candidate =
     (case candidate of
        JObj d \<Rightarrow>
          (let after_text =
                 (case jget d ''data'' of
                    JObj dd \<Rightarrow> map fst dd
                  | _ \<Rightarrow> map fst d)
           in case str_nonblank (jget d ''text'') of
                Some t \<Rightarrow>
                  (case loads t of
                     None \<Rightarrow> [''value'']
                   | Some (JObj obj) \<Rightarrow> map fst obj
                   | Some _ \<Rightarrow> after_text)
              | None \<Rightarrow> after_text)
      | JStr c \<Rightarrow>
          (if py_strip c \<noteq> []
           then (case loads c of
                   None \<Rightarrow> [''value'']
                 | Some (JObj obj) \<Rightarrow> map fst obj
                 | Some _ \<Rightarrow> [])
           else [])
      | _ \<Rightarrow> [])"

definition fallback_keys :: "string list" where
  "fallback_keys = [''name'', ''url_path'', ''description'', ''base_url'']"

definition default_key :: "string list \<Rightarrow> string" where
  \<comment> \<open>\<open>"name" if "name" in keys else (keys[0] if keys else "")\<close>\<close>
  "default_key keys =
     (if ''name'' \<in> set keys then ''name'' else (case keys of [] \<Rightarrow> [] | k # _ \<Rightarrow> k))"

definition router_candidate :: "router_config \<Rightarrow> json \<Rightarrow> string option \<Rightarrow> json" where
  \<comment> \<open>Step 1 of the router's \<open>update_build_config\<close>: the changed value, else the one held.\<close>
  "router_candidate bc field_value field_name =
     (let candidate = (if field_name = Some ''tool_message'' then field_value else JNull)
      in if candidate = JNull
         then (case rc_tool_message bc of None \<Rightarrow> JNull | Some v \<Rightarrow> v)
         else candidate)"

definition router_keys :: "(string \<Rightarrow> json option) \<Rightarrow> router_config \<Rightarrow> json \<Rightarrow> string option \<Rightarrow> string list" where
  \<comment> \<open>Steps 2 and 3: the keys of the candidate, or the usual keys when there are none.\<close>
  "router_keys loads bc field_value field_name =
     (let keys = extract_json_keys_from_candidate loads (router_candidate bc field_value field_name)
      in if keys = [] then fallback_keys else keys)"

definition router_update_build_config ::
  "(string \<Rightarrow> json option) \<Rightarrow> router_config \<Rightarrow> json \<Rightarrow> string option \<Rightarrow> router_config" where
  "router_update_build_config loads bc field_value field_name =
     (let keys = router_keys loads bc field_value field_name;
          bc1 = (case rc_key_for_prompt bc of
                   None \<Rightarrow> bc
                 | Some d \<Rightarrow> bc\<lparr>rc_key_for_prompt := Some (d\<lparr>dd_options := keys\<rparr>)\<rparr>);
          current_value = (case rc_key_for_prompt bc1 of None \<Rightarrow> [] | Some d \<Rightarrow> dd_value d);
          default_value = default_key keys
      in if current_value = [] \<or> current_value \<notin> set keys
         then (case rc_key_for_prompt bc1 of
                 None \<Rightarrow> bc1
               | Some d \<Rightarrow> bc1\<lparr>rc_key_for_prompt := Some (d\<lparr>dd_value := default_value\<rparr>)\<rparr>)
         else bc1)"

section \<open>Example inputs\<close>

text \<open>
  A discovery payload with five items: three are eligible, one has another owner, one
  has an empty id.
\<close>

definition example_item :: "string \<Rightarrow> string \<Rightarrow> string \<Rightarrow> json" where
  "example_item i n ow = JObj [(''id'', JStr i), (''name'', JStr n), (''owned_by'', JStr ow)]"

definition example_payload :: json where
  "example_payload =
     JObj [(''data'', JArr [example_item ''m2'' ''beta'' ''OpenAI '',
                            example_item ''m1'' ''Alpha'' ''sktax'',
                            example_item ''m3'' ''alpha'' ''openai'',
                            example_item ''m4'' ''x'' ''other'',
                            example_item [] ''y'' ''openai''])]"

text \<open>
  Networks that fail on the first request only, or on every request, and the arguments
  of an invocation of the model \<open>GPT-4o\<close> at a given backend.
\<close>

definition fail_first :: "exn \<Rightarrow> json \<Rightarrow> network" where
  "fail_first e reply = (\<lambda>n rq. if n = 0 then Inl e else Inr reply)"

definition always_fail :: "exn \<Rightarrow> network" where
  "always_fail e = (\<lambda>n rq. Inl e)"

definition always_reply :: "json \<Rightarrow> network" where
  "always_reply reply = (\<lambda>n rq. Inr reply)"

definition example_args :: "string \<Rightarrow> string \<Rightarrow> chat_args" where
  "example_args name b =
     \<lparr>chat_input = ''hi'', prompt = [], model_name = name, backend_url = b,
      force_https = False, enable_tools = False, tool_choice_auto = False\<rparr>"

definition example_reply :: json where
  "example_reply =
     JObj [(''choices'', JArr [JObj [(''message'', JObj [(''content'', JStr ''hello'')])]])]"

definition example_config :: build_config where
  "example_config =
     \<lparr>bc_backend_url = Some (JStr ''http://h''), bc_force_https = Some (JBool False),
      bc_model_name = Some \<lparr>dd_options = [], dd_value = []\<rparr>,
      bc_refresh_now = Some (JBool True)\<rparr>"

text \<open>The instance after a refresh of \<open>example_config\<close> that was answered with \<open>example_payload\<close>.\<close>

definition refreshed_picker :: picker where
  "refreshed_picker =
     \<lparr>name_to_id = [(''Alpha'', ''m1''), (''alpha'', ''m3''), (''beta'', ''m2'')],
      last_text = None, did_initial_fetch = True,
      sent = [get_request ''http://h/v1/models'']\<rparr>"

text \<open>
  Inputs of the tool invoker: a selection at the backend \<open>http://h\<close> with a given path, and
  a network that answers the first request with one status and the later ones with
  another.
\<close>

definition example_response :: "nat \<Rightarrow> response" where
  "example_response st =
     \<lparr>status_code = st, resp_text = ''body'', resp_json = Some (JObj [(''ok'', JBool True)]),
      http_error_str = ''error''\<rparr>"

definition status_then :: "nat \<Rightarrow> nat \<Rightarrow> tool_network" where
  "status_then st1 st2 = (\<lambda>n rq. Inr (example_response (if n = 0 then st1 else st2)))"

definition example_inputs :: "string \<Rightarrow> invoker_inputs" where
  "example_inputs path =
     \<lparr>selection = Inr [(''base_url'', JStr ''http://h''), (''url_path'', JStr path),
                       (''name'', JStr ''t'')],
      raw_type = ''str'', user_text = ''hi'', params = NoParams, method_override = ''POST'',
      force_get_query = False\<rparr>"

text \<open>A router configuration with an empty key dropdown, and one that holds a selection.\<close>

definition example_router_config :: "string \<Rightarrow> router_config" where
  "example_router_config key =
     \<lparr>rc_tool_message = None, rc_key_for_prompt = Some \<lparr>dd_options = [], dd_value = key\<rparr>\<rparr>"

definition loads_empty_object :: "string \<Rightarrow> json option" where
  \<comment> \<open>\<open>json.loads\<close> on the text \<open>{}\<close>; other texts are not needed.\<close>
  "loads_empty_object t = (if t = ''{}'' then Some (JObj []) else None)"

section \<open>Properties of the URL join\<close>

text \<open>
  C8. \<open>_join_url("http://h/", "/sub")\<close> is \<open>http://h/tools/sub\<close> and
  \<open>_join_url("http://h", "/tools/sub")\<close> is \<open>http://h/tools/sub\<close>: the two examples hold.
  The join looks for the mount segment in the path only. The tool picker hands over
  \<open>f"{base}/tools"\<close> as the base URL, and for that base and the path \<open>/sub\<close> the result
  is \<open>http://h/tools/tools/sub\<close>, with the mount segment \<open>/tools\<close> doubled.
\<close>

theorem join_url_doubles_mount_of_picker_base:
  "join_url ''http://h/'' ''/sub'' ''/tools'' = ''http://h/tools/sub''
   \<and> join_url ''http://h'' ''/tools/sub'' ''/tools'' = ''http://h/tools/sub''
   \<and> picker_base_url ''http://h'' = ''http://h/tools''
   \<and> join_url (picker_base_url ''http://h'') ''/sub'' ''/tools'' = ''http://h/tools/tools/sub''
   \<and> contains ''/tools/tools'' (join_url (picker_base_url ''http://h'') ''/sub'' ''/tools'')"
  by code_simp

section \<open>Properties of the model picker\<close>

subsection \<open>Basic facts\<close>

lemma normalize_JStr:
  "normalize dflt (JStr x) f = Inr (normalize_str (if x = [] then dflt else x) f)"
  by (simp add: normalize_def py_or_def)

lemma fallback_pairs_first: "take 1 fallback_pairs = [(''GPT-4o Mini'', ''gpt-4o-mini'')]"
  by (simp add: fallback_pairs_def)

lemma resolve_model_id_cases:
  "resolve_model_id s n =
     (case map_of (name_to_id s) n of
        None \<Rightarrow> ''gpt-4o-mini''
      | Some i \<Rightarrow> (if i = [] then ''gpt-4o-mini'' else i))"
  by (simp add: resolve_model_id_def fallback_pairs_def split: option.splits)

lemma resolve_model_id_nonempty: "resolve_model_id s n \<noteq> []"
  by (simp add: resolve_model_id_cases split: option.splits)

lemma payload_model_chat_payload:
  "payload_model (chat_payload tools a s) = JStr (resolve_model_id s (model_name a))"
  by (simp add: payload_model_def chat_payload_def Let_def jget_def resolve_model_id_nonempty)

subsection \<open>The model id output\<close>

text \<open>
  C10. \<open>get_model_id\<close> returns the identifier that the cached map gives for the trimmed
  name, and the empty string when the trimmed name is not in the map. It does not fall
  back to the default list: for a name that is not in the map the output is empty, while
  the request body built by \<open>_call_chat\<close> for that name carries the first default
  identifier, so the two differ.
\<close>

theorem get_model_id_no_default:
  "(\<forall>i. map_of (name_to_id s) (py_strip n) = Some i \<longrightarrow> get_model_id s n = i)
   \<and> (map_of (name_to_id s) (py_strip n) = None \<longrightarrow>
        get_model_id s n = []
        \<and> (model_name a = py_strip n \<longrightarrow>
             payload_model (chat_payload tools a s) = JStr ''gpt-4o-mini''
             \<and> payload_model (chat_payload tools a s) \<noteq> JStr (get_model_id s n)))"
  by (simp add: get_model_id_def payload_model_chat_payload resolve_model_id_cases)

theorem get_model_id_no_default_witness:
  "map_of (name_to_id (init_picker\<lparr>name_to_id := [(''GPT-4o'', ''gpt-4o'')]\<rparr>)) (py_strip '' GPT-4o '')
     = Some ''gpt-4o''
   \<and> get_model_id (init_picker\<lparr>name_to_id := [(''GPT-4o'', ''gpt-4o'')]\<rparr>) '' GPT-4o '' = ''gpt-4o''
   \<and> map_of (name_to_id init_picker) (py_strip ''unknown'') = None
   \<and> get_model_id init_picker ''unknown'' = []
   \<and> payload_model
        (chat_payload []
           \<lparr>chat_input = ''hi'', prompt = [], model_name = py_strip ''unknown'', backend_url = [],
            force_https = False, enable_tools = False, tool_choice_auto = False\<rparr> init_picker)
      = JStr ''gpt-4o-mini''"
proof -
  have strip1: "py_strip '' GPT-4o '' = ''GPT-4o''" by code_simp
  have strip2: "py_strip ''unknown'' = ''unknown''" by code_simp
  have m1: "map_of (name_to_id (init_picker\<lparr>name_to_id := [(''GPT-4o'', ''gpt-4o'')]\<rparr>))
              (py_strip '' GPT-4o '') = Some ''gpt-4o''"
    by (simp add: strip1)
  have m2: "map_of (name_to_id init_picker) (py_strip ''unknown'') = None"
    by (simp add: init_picker_def)
  show ?thesis
    using
      get_model_id_no_default [of "init_picker\<lparr>name_to_id := [(''GPT-4o'', ''gpt-4o'')]\<rparr>" "'' GPT-4o ''"]
      get_model_id_no_default [of init_picker "''unknown''"
        "\<lparr>chat_input = ''hi'', prompt = [], model_name = py_strip ''unknown'', backend_url = [],
          force_https = False, enable_tools = False, tool_choice_auto = False\<rparr>" "[]"]
      m1 m2
    by simp
qed

subsection \<open>Parsing the response\<close>

lemma response_content_first_choice_None:
  "first_choice resp = None \<Longrightarrow> \<exists>e. response_content resp = Inl e"
  by (auto simp: first_choice_def response_content_def index0_def py_or_def
           split: json.splits list.splits if_splits)

lemma response_content_first_choice_obj:
  "first_choice resp = Some (JObj c) \<Longrightarrow>
   response_content resp =
     (case py_or (jget c ''message'') (JObj []) of
        JObj m \<Rightarrow> Inr (py_str (py_or (jget m ''content'') (JStr [])))
      | _ \<Rightarrow> Inl AttributeError)"
  by (auto simp: first_choice_def response_content_def index0_def py_or_def
           split: json.splits list.splits if_splits)

lemma response_content_first_choice_other:
  "first_choice resp = Some c \<Longrightarrow> (\<forall>d. c \<noteq> JObj d) \<Longrightarrow> \<exists>e. response_content resp = Inl e"
  by (auto simp: first_choice_def response_content_def index0_def py_or_def
           split: json.splits list.splits if_splits)

lemma py_str_empty: "py_str (JStr []) = []"
  by (simp add: py_str_def)

text \<open>
  C6, as the code has it. The returned text depends on the first choice of the response:
  \<^item> when the response is an object whose \<open>choices\<close> is a non-empty list with an object
    first, and that object's \<open>message\<close> is an object: the text is \<open>str(content)\<close> of its
    \<open>content\<close> when that is present and truthy, and the empty string when the content is
    absent, null or empty;
  \<^item> when the first choice is an object whose \<open>message\<close> is absent, null or empty: the
    text is the empty string;
  \<^item> in every other case (the response is not an object, it has no non-empty list of
    choices, the first choice is not an object, or the message is a non-empty value
    that is not an object): the text is the response serialised to JSON, cut to at
    most 2000 characters.
  Parsing is a total function: it returns a string for every response.
\<close>

theorem parse_response_cases:
  "(first_choice resp = None \<longrightarrow>
      parse_response resp = take 2000 (json_dumps resp))
   \<and> (\<forall>c. first_choice resp = Some c \<longrightarrow> (\<forall>d. c \<noteq> JObj d) \<longrightarrow>
      parse_response resp = take 2000 (json_dumps resp))
   \<and> (\<forall>c m. first_choice resp = Some (JObj c) \<longrightarrow> jget c ''message'' = JObj m \<longrightarrow>
      parse_response resp =
        (if truthy (jget m ''content'') then py_str (jget m ''content'') else []))
   \<and> (\<forall>c. first_choice resp = Some (JObj c) \<longrightarrow> \<not> truthy (jget c ''message'') \<longrightarrow>
      parse_response resp = [])
   \<and> (\<forall>c. first_choice resp = Some (JObj c) \<longrightarrow> truthy (jget c ''message'') \<longrightarrow>
        (\<forall>m. jget c ''message'' \<noteq> JObj m) \<longrightarrow>
      parse_response resp = take 2000 (json_dumps resp))
   \<and> length (take 2000 (json_dumps resp)) \<le> 2000"
proof (intro conjI allI impI)
  assume "first_choice resp = None"
  then obtain e where "response_content resp = Inl e"
    using response_content_first_choice_None by blast
  then show "parse_response resp = take 2000 (json_dumps resp)"
    by (simp add: parse_response_def)
next
  fix c assume "first_choice resp = Some c" "\<forall>d. c \<noteq> JObj d"
  then obtain e where "response_content resp = Inl e"
    using response_content_first_choice_other by blast
  then show "parse_response resp = take 2000 (json_dumps resp)"
    by (simp add: parse_response_def)
next
  fix c m assume "first_choice resp = Some (JObj c)" "jget c ''message'' = JObj m"
  then show "parse_response resp =
      (if truthy (jget m ''content'') then py_str (jget m ''content'') else [])"
    by (cases "m = []")
       (simp_all add: parse_response_def response_content_first_choice_obj py_or_def
          py_str_empty jget_def)
next
  fix c assume "first_choice resp = Some (JObj c)" "\<not> truthy (jget c ''message'')"
  then show "parse_response resp = []"
    by (simp add: parse_response_def response_content_first_choice_obj py_or_def
          py_str_empty jget_def)
next
  fix c assume "first_choice resp = Some (JObj c)" "truthy (jget c ''message'')"
    "\<forall>m. jget c ''message'' \<noteq> JObj m"
  then show "parse_response resp = take 2000 (json_dumps resp)"
    by (simp add: parse_response_def response_content_first_choice_obj py_or_def
          split: json.splits)
next
  show "length (take 2000 (json_dumps resp)) \<le> 2000" by simp
qed

text \<open>
  A response with the usual shape, one whose first choice has no message, and one with no
  choices at all.
\<close>

theorem parse_response_cases_witness:
  "first_choice (JObj [(''choices'', JArr [JObj [(''message'', JObj [(''content'', JStr ''hello'')])]])])
     = Some (JObj [(''message'', JObj [(''content'', JStr ''hello'')])])
   \<and> parse_response
        (JObj [(''choices'', JArr [JObj [(''message'', JObj [(''content'', JStr ''hello'')])]])])
      = ''hello''
   \<and> first_choice (JObj [(''choices'', JArr [JObj []])]) = Some (JObj [])
   \<and> parse_response (JObj [(''choices'', JArr [JObj []])]) = []
   \<and> first_choice (JObj [(''error'', JStr ''x'')]) = None
   \<and> parse_response (JObj [(''error'', JStr ''x'')])
      = take 2000 (json_dumps (JObj [(''error'', JStr ''x'')]))"
proof -
  have f1: "first_choice (JObj [(''choices'', JArr [JObj [(''message'', JObj [(''content'', JStr ''hello'')])]])])
     = Some (JObj [(''message'', JObj [(''content'', JStr ''hello'')])])"
    by (simp add: first_choice_def jget_def)
  have f2: "first_choice (JObj [(''choices'', JArr [JObj []])]) = Some (JObj [])"
    by (simp add: first_choice_def jget_def)
  have f3: "first_choice (JObj [(''error'', JStr ''x'')]) = None"
    by (simp add: first_choice_def jget_def)
  have m1: "jget [(''message'', JObj [(''content'', JStr ''hello'')])] ''message''
              = JObj [(''content'', JStr ''hello'')]"
    by (simp add: jget_def)
  have m2: "\<not> truthy (jget [] ''message'')"
    by (simp add: jget_def)
  have c1: "jget [(''content'', JStr ''hello'')] ''content'' = JStr ''hello''"
    by (simp add: jget_def)
  show ?thesis
    using
      parse_response_cases [of "JObj [(''choices'', JArr [JObj [(''message'', JObj [(''content'', JStr ''hello'')])]])]"]
      parse_response_cases [of "JObj [(''choices'', JArr [JObj []])]"]
      parse_response_cases [of "JObj [(''error'', JStr ''x'')]"]
      f1 f2 f3 m1 m2 c1
    by (simp add: py_str_def)
qed

text \<open>
  The claim as stated fails for a response whose first choice has no message: the path
  \<open>choices[0].message.content\<close> is absent, and the returned text is the empty string,
  not the serialised response.
\<close>

theorem parse_response_absent_path_counterexample:
  "parse_response (JObj [(''choices'', JArr [JObj []])]) = []
   \<and> take 2000 (json_dumps (JObj [(''choices'', JArr [JObj []])])) \<noteq> []
   \<and> parse_response (JObj [(''choices'', JArr [JObj []])])
      \<noteq> take 2000 (json_dumps (JObj [(''choices'', JArr [JObj []])]))"
  by code_simp

subsection \<open>Discovery: filter and sort\<close>

lemma collect_pairs_map_filter: "collect_pairs items = List.map_filter pair_of_item items"
  by (induction items) (simp_all add: List.map_filter_simps split: option.splits)

lemma collect_pairs_length:
  "length (collect_pairs items) = length (filter (\<lambda>it. pair_of_item it \<noteq> None) items)"
  by (induction items) (simp_all split: option.splits)

lemma pair_of_item_Some:
  "pair_of_item it = Some (n, i) \<longleftrightarrow>
     (\<exists>d. it = JObj d \<and> item_owner d \<in> ALLOWED_OWNERS \<and> n = item_name d \<and> i = item_id d
          \<and> n \<noteq> [] \<and> i \<noteq> [])"
  by (cases it) (auto simp: pair_of_item_def)

lemma set_collect_pairs:
  "(n, i) \<in> set (collect_pairs items) \<longleftrightarrow>
     (\<exists>d. JObj d \<in> set items \<and> item_owner d \<in> ALLOWED_OWNERS \<and> n = item_name d
          \<and> i = item_id d \<and> n \<noteq> [] \<and> i \<noteq> [])"
proof (induction items)
  case Nil
  then show ?case by simp
next
  case (Cons it items)
  show ?case
  proof (cases "pair_of_item it")
    case None
    then have "\<not> (\<exists>d. it = JObj d \<and> item_owner d \<in> ALLOWED_OWNERS \<and> n = item_name d
        \<and> i = item_id d \<and> n \<noteq> [] \<and> i \<noteq> [])"
      using pair_of_item_Some [of it n i] by simp
    with None Cons.IH show ?thesis by auto
  next
    case (Some p)
    obtain n' i' where p: "p = (n', i')" by (cases p)
    have "(n, i) = (n', i') \<longleftrightarrow>
        (\<exists>d. it = JObj d \<and> item_owner d \<in> ALLOWED_OWNERS \<and> n = item_name d
          \<and> i = item_id d \<and> n \<noteq> [] \<and> i \<noteq> [])"
      using Some p pair_of_item_Some [of it n i] pair_of_item_Some [of it n' i'] by auto
    with Some p Cons.IH show ?thesis by auto
  qed
qed

lemma models_of_payload_Inr:
  "models_of_payload payload = Inr pairs \<Longrightarrow>
   \<exists>data items. payload_data payload = Inr data \<and> iter_items data = Inr items
     \<and> pairs = sort_key (\<lambda>p. py_lower (fst p)) (collect_pairs items)"
  by (auto simp: models_of_payload_def split: sum.splits)

lemma fetch_models_Inr:
  "fetch_models net base s = (Inr pairs, s') \<Longrightarrow>
   \<exists>payload. sent s' \<noteq> [] \<and> net (length (sent s') - 1) (last (sent s')) = Inr payload
     \<and> models_of_payload payload = Inr pairs"
  by (auto simp: fetch_models_def http_get_json_def Let_def split: sum.splits if_splits)

text \<open>
  C1, as the code has it. When \<open>_fetch_models\<close> returns, the list it returns is built from
  the items of the payload that answered its last request: it holds one pair
  \<open>(name, id)\<close> for each item that is an object whose \<open>owned_by\<close> (as a string, trimmed and
  lowercased) is in the allow-list and whose trimmed \<open>id\<close> and name are not empty, where
  the name is the trimmed \<open>name\<close> field or, when that is missing, the id. The list is
  sorted ascending by lowercased name, items with equal lowercased names keep their
  order, and nothing is removed: two eligible items with the same name give two pairs.
\<close>

theorem fetch_models_filtered_sorted:
  assumes "fetch_models net base s = (Inr pairs, s')"
  shows "\<exists>payload data items.
           net (length (sent s') - 1) (last (sent s')) = Inr payload
         \<and> payload_data payload = Inr data \<and> iter_items data = Inr items
         \<and> sorted (map (\<lambda>p. py_lower (fst p)) pairs)
         \<and> mset pairs = mset (collect_pairs items)
         \<and> length pairs = length (filter (\<lambda>it. pair_of_item it \<noteq> None) items)
         \<and> (\<forall>k. filter (\<lambda>p. py_lower (fst p) = k) pairs
                 = filter (\<lambda>p. py_lower (fst p) = k) (collect_pairs items))
         \<and> (\<forall>n i. (n, i) \<in> set pairs \<longleftrightarrow>
                (\<exists>d. JObj d \<in> set items \<and> item_owner d \<in> ALLOWED_OWNERS
                     \<and> n = item_name d \<and> i = item_id d \<and> n \<noteq> [] \<and> i \<noteq> []))"
proof -
  from assms obtain payload where
    p: "net (length (sent s') - 1) (last (sent s')) = Inr payload"
      "models_of_payload payload = Inr pairs"
    using fetch_models_Inr by blast
  then obtain data items where
    d: "payload_data payload = Inr data" "iter_items data = Inr items"
      "pairs = sort_key (\<lambda>p. py_lower (fst p)) (collect_pairs items)"
    using models_of_payload_Inr by blast
  have srt: "sorted (map (\<lambda>p. py_lower (fst p)) pairs)"
    unfolding d(3) by (rule sorted_sort_key)
  have ms: "mset pairs = mset (collect_pairs items)"
    unfolding d(3) by simp
  have len: "length pairs = length (filter (\<lambda>it. pair_of_item it \<noteq> None) items)"
    unfolding d(3) by (simp add: collect_pairs_length)
  have stable: "\<forall>k. filter (\<lambda>p. py_lower (fst p) = k) pairs
                 = filter (\<lambda>p. py_lower (fst p) = k) (collect_pairs items)"
    unfolding d(3) by (simp add: sort_key_stable)
  have mem: "\<forall>n i. (n, i) \<in> set pairs \<longleftrightarrow>
      (\<exists>d. JObj d \<in> set items \<and> item_owner d \<in> ALLOWED_OWNERS
           \<and> n = item_name d \<and> i = item_id d \<and> n \<noteq> [] \<and> i \<noteq> [])"
    unfolding d(3) by (simp add: set_collect_pairs)
  from p(1) d(1,2) srt ms len stable mem show ?thesis by blast
qed

lemma fetch_models_example:
  "fetch_models (\<lambda>n rq. Inr example_payload) ''http://h'' init_picker
     = (Inr [(''Alpha'', ''m1''), (''alpha'', ''m3''), (''beta'', ''m2'')],
        init_picker\<lparr>sent := [get_request ''http://h/v1/models'']\<rparr>)"
  by code_simp

theorem fetch_models_filtered_sorted_witness:
  "fetch_models (\<lambda>n rq. Inr example_payload) ''http://h'' init_picker
     = (Inr [(''Alpha'', ''m1''), (''alpha'', ''m3''), (''beta'', ''m2'')],
        init_picker\<lparr>sent := [get_request ''http://h/v1/models'']\<rparr>)
   \<and> sorted (map (\<lambda>p. py_lower (fst p)) [(''Alpha'', ''m1''), (''alpha'', ''m3''), (''beta'', ''m2'')])
   \<and> (\<exists>items. mset [(''Alpha'', ''m1''), (''alpha'', ''m3''), (''beta'', ''m2'')]
                 = mset (collect_pairs items))"
  using fetch_models_filtered_sorted [OF fetch_models_example] fetch_models_example
  by blast

text \<open>
  The claim as stated fails for a payload in which two eligible items have the same
  name, and one eligible item has an empty id: both pairs with the name \<open>m\<close> are returned,
  so the names are not distinct, and the third item, whose owner is in the allow-list,
  gives no pair.
\<close>

theorem fetch_models_duplicate_names_counterexample:
  "fst (fetch_models
          (\<lambda>n rq. Inr (JObj [(''data'', JArr [example_item ''a'' ''m'' ''openai'',
                                               example_item ''b'' ''m'' ''OpenAI '',
                                               example_item [] ''n'' ''sktax''])]))
          ''http://h'' init_picker)
     = Inr [(''m'', ''a''), (''m'', ''b'')]
   \<and> \<not> distinct (map fst [(''m'', ''a''), (''m'', ''b'')])
   \<and> item_owner [(''id'', JStr []), (''name'', JStr ''n''), (''owned_by'', JStr ''sktax'')]
       \<in> ALLOWED_OWNERS"
  by code_simp

subsection \<open>The retry on failure\<close>

lemma is_os_error_iff: "is_os_error e \<longleftrightarrow> is_transport_failure e \<or> (\<exists>st. e = HTTPError st)"
  by (cases e) simp_all

lemma fetch_models_first_ok:
  "net (length (sent s)) (get_request (base @ ''/v1/models'')) = Inr p \<Longrightarrow>
   fetch_models net base s
     = (models_of_payload p, s\<lparr>sent := sent s @ [get_request (base @ ''/v1/models'')]\<rparr>)"
  by (simp add: fetch_models_def http_get_json_def Let_def)

lemma fetch_models_first_not_caught:
  "net (length (sent s)) (get_request (base @ ''/v1/models'')) = Inl e \<Longrightarrow> \<not> is_os_error e \<Longrightarrow>
   fetch_models net base s
     = (Inl e, s\<lparr>sent := sent s @ [get_request (base @ ''/v1/models'')]\<rparr>)"
  by (simp add: fetch_models_def http_get_json_def Let_def)

lemma fetch_models_first_caught:
  "net (length (sent s)) (get_request (base @ ''/v1/models'')) = Inl e \<Longrightarrow> is_os_error e \<Longrightarrow>
   fetch_models net base s
     = ((case net (Suc (length (sent s))) (get_request (linux_fallback base @ ''/v1/models'')) of
           Inl e2 \<Rightarrow> Inl e2
         | Inr p \<Rightarrow> models_of_payload p),
        s\<lparr>sent := sent s @ [get_request (base @ ''/v1/models''),
                              get_request (linux_fallback base @ ''/v1/models'')]\<rparr>)"
  by (simp add: fetch_models_def http_get_json_def Let_def split: sum.splits)

lemma post_chat_first_ok:
  "net (length (sent s)) (post_request (base @ ''/v1/chat/completions'') body) = Inr resp \<Longrightarrow>
   post_chat net base body s
     = (Inr resp, s\<lparr>sent := sent s @ [post_request (base @ ''/v1/chat/completions'') body]\<rparr>)"
  by (simp add: post_chat_def http_post_json_def Let_def)

lemma post_chat_first_not_retried:
  "net (length (sent s)) (post_request (base @ ''/v1/chat/completions'') body) = Inl e \<Longrightarrow>
   \<not> is_os_error e \<or> linux_fallback base = base \<Longrightarrow>
   post_chat net base body s
     = (Inl e, s\<lparr>sent := sent s @ [post_request (base @ ''/v1/chat/completions'') body]\<rparr>)"
  by (auto simp: post_chat_def http_post_json_def Let_def)

lemma post_chat_first_retried:
  "net (length (sent s)) (post_request (base @ ''/v1/chat/completions'') body) = Inl e \<Longrightarrow>
   is_os_error e \<Longrightarrow> linux_fallback base \<noteq> base \<Longrightarrow>
   post_chat net base body s
     = (net (Suc (length (sent s)))
          (post_request (linux_fallback base @ ''/v1/chat/completions'') body),
        s\<lparr>sent := sent s @ [post_request (base @ ''/v1/chat/completions'') body,
                              post_request (linux_fallback base @ ''/v1/chat/completions'') body]\<rparr>)"
  by (simp add: post_chat_def http_post_json_def Let_def)

lemma call_chat_uncached:
  "last_text s = None \<Longrightarrow>
   call_chat dflt net tools a s =
     (case post_chat net (chat_base dflt a) (chat_payload tools a s) s of
        (Inl e, s1) \<Rightarrow> (Inl e, s1)
      | (Inr resp, s1) \<Rightarrow> (Inr (parse_response resp), s1\<lparr>last_text := Some (parse_response resp)\<rparr>))"
  by (simp add: call_chat_def normalize_JStr chat_base_def Let_def split: prod.splits sum.splits)

lemma new_requests_append [simp]:
  "new_requests s (s'\<lparr>sent := sent s @ rs\<rparr>) = rs"
  by (simp add: new_requests_def)

lemma new_requests_append_last_text [simp]:
  "new_requests s (s'\<lparr>sent := sent s @ rs, last_text := t\<rparr>) = rs"
  by (simp add: new_requests_def)

text \<open>
  C2, as the code has it. The handler of both calls catches every \<open>URLError\<close> and
  \<open>OSError\<close>: the transport-level failures and also \<open>HTTPError\<close>, which \<open>urlopen\<close> raises
  for an HTTP error status.
  \<^item> Discovery GET: when the first request raises such an exception, exactly one more
    request is issued, to the host-substituted URL (the same URL again when the base
    does not contain \<open>host.docker.internal\<close>), and its outcome, result or exception,
    is the outcome of \<open>_fetch_models\<close>. Any other exception is raised at once, after one
    request.
  \<^item> Invocation POST: when the first request raises such an exception and the host
    substitution changes the base, exactly one more request is issued, to the
    substituted URL with the same body, and its outcome is the outcome of the call.
    When the substitution leaves the base unchanged, or the exception is of another
    kind, no retry is made and the first exception is raised after one request.
\<close>

theorem retry_once_on_os_error:
  "(is_os_error e \<longleftrightarrow> is_transport_failure e \<or> (\<exists>st. e = HTTPError st))
   \<and> (net (length (sent s)) (get_request (base @ ''/v1/models'')) = Inl e \<and> is_os_error e \<longrightarrow>
        new_requests s (snd (fetch_models net base s))
          = [get_request (base @ ''/v1/models''),
             get_request (linux_fallback base @ ''/v1/models'')]
        \<and> fst (fetch_models net base s)
          = (case net (Suc (length (sent s))) (get_request (linux_fallback base @ ''/v1/models'')) of
               Inl e2 \<Rightarrow> Inl e2
             | Inr p \<Rightarrow> models_of_payload p))
   \<and> (net (length (sent s)) (get_request (base @ ''/v1/models'')) = Inl e \<and> \<not> is_os_error e \<longrightarrow>
        new_requests s (snd (fetch_models net base s)) = [get_request (base @ ''/v1/models'')]
        \<and> fst (fetch_models net base s) = Inl e)
   \<and> (last_text s = None
        \<and> net (length (sent s))
            (post_request (chat_base dflt a @ ''/v1/chat/completions'') (chat_payload tools a s)) = Inl e
        \<and> is_os_error e \<and> linux_fallback (chat_base dflt a) \<noteq> chat_base dflt a \<longrightarrow>
        new_requests s (snd (call_chat dflt net tools a s))
          = [post_request (chat_base dflt a @ ''/v1/chat/completions'') (chat_payload tools a s),
             post_request (linux_fallback (chat_base dflt a) @ ''/v1/chat/completions'')
               (chat_payload tools a s)]
        \<and> fst (call_chat dflt net tools a s)
          = (case net (Suc (length (sent s)))
                    (post_request (linux_fallback (chat_base dflt a) @ ''/v1/chat/completions'')
                       (chat_payload tools a s)) of
               Inl e2 \<Rightarrow> Inl e2
             | Inr resp \<Rightarrow> Inr (parse_response resp)))
   \<and> (last_text s = None
        \<and> net (length (sent s))
            (post_request (chat_base dflt a @ ''/v1/chat/completions'') (chat_payload tools a s)) = Inl e
        \<and> (\<not> is_os_error e \<or> linux_fallback (chat_base dflt a) = chat_base dflt a) \<longrightarrow>
        new_requests s (snd (call_chat dflt net tools a s))
          = [post_request (chat_base dflt a @ ''/v1/chat/completions'') (chat_payload tools a s)]
        \<and> fst (call_chat dflt net tools a s) = Inl e)"
proof (intro conjI impI)
  show "is_os_error e \<longleftrightarrow> is_transport_failure e \<or> (\<exists>st. e = HTTPError st)"
    by (rule is_os_error_iff)
next
  assume h: "net (length (sent s)) (get_request (base @ ''/v1/models'')) = Inl e \<and> is_os_error e"
  then show "new_requests s (snd (fetch_models net base s))
          = [get_request (base @ ''/v1/models''),
             get_request (linux_fallback base @ ''/v1/models'')]"
    by (simp add: fetch_models_first_caught)
  from h show "fst (fetch_models net base s)
          = (case net (Suc (length (sent s))) (get_request (linux_fallback base @ ''/v1/models'')) of
               Inl e2 \<Rightarrow> Inl e2
             | Inr p \<Rightarrow> models_of_payload p)"
    by (simp add: fetch_models_first_caught)
next
  assume h: "net (length (sent s)) (get_request (base @ ''/v1/models'')) = Inl e \<and> \<not> is_os_error e"
  then show "new_requests s (snd (fetch_models net base s)) = [get_request (base @ ''/v1/models'')]"
    by (simp add: fetch_models_first_not_caught)
  from h show "fst (fetch_models net base s) = Inl e"
    by (simp add: fetch_models_first_not_caught)
next
  assume h: "last_text s = None
        \<and> net (length (sent s))
            (post_request (chat_base dflt a @ ''/v1/chat/completions'') (chat_payload tools a s)) = Inl e
        \<and> is_os_error e \<and> linux_fallback (chat_base dflt a) \<noteq> chat_base dflt a"
  then have pc: "post_chat net (chat_base dflt a) (chat_payload tools a s) s
     = (net (Suc (length (sent s)))
          (post_request (linux_fallback (chat_base dflt a) @ ''/v1/chat/completions'')
             (chat_payload tools a s)),
        s\<lparr>sent := sent s @ [post_request (chat_base dflt a @ ''/v1/chat/completions'')
                                (chat_payload tools a s),
                              post_request (linux_fallback (chat_base dflt a) @ ''/v1/chat/completions'')
                                (chat_payload tools a s)]\<rparr>)"
    using post_chat_first_retried by blast
  from h pc show "new_requests s (snd (call_chat dflt net tools a s))
          = [post_request (chat_base dflt a @ ''/v1/chat/completions'') (chat_payload tools a s),
             post_request (linux_fallback (chat_base dflt a) @ ''/v1/chat/completions'')
               (chat_payload tools a s)]"
    by (simp add: call_chat_uncached split: sum.splits)
  from h pc show "fst (call_chat dflt net tools a s)
          = (case net (Suc (length (sent s)))
                    (post_request (linux_fallback (chat_base dflt a) @ ''/v1/chat/completions'')
                       (chat_payload tools a s)) of
               Inl e2 \<Rightarrow> Inl e2
             | Inr resp \<Rightarrow> Inr (parse_response resp))"
    by (simp add: call_chat_uncached split: sum.splits)
next
  assume h: "last_text s = None
        \<and> net (length (sent s))
            (post_request (chat_base dflt a @ ''/v1/chat/completions'') (chat_payload tools a s)) = Inl e
        \<and> (\<not> is_os_error e \<or> linux_fallback (chat_base dflt a) = chat_base dflt a)"
  then have pc: "post_chat net (chat_base dflt a) (chat_payload tools a s) s
     = (Inl e, s\<lparr>sent := sent s @ [post_request (chat_base dflt a @ ''/v1/chat/completions'')
                                      (chat_payload tools a s)]\<rparr>)"
    using post_chat_first_not_retried by blast
  from h pc show "new_requests s (snd (call_chat dflt net tools a s))
          = [post_request (chat_base dflt a @ ''/v1/chat/completions'') (chat_payload tools a s)]"
    by (simp add: call_chat_uncached)
  from h pc show "fst (call_chat dflt net tools a s) = Inl e"
    by (simp add: call_chat_uncached)
qed

text \<open>
  The first request fails with \<open>URLError\<close> at a base that names \<open>host.docker.internal\<close>:
  both calls go on to the gateway address, once.
\<close>

lemma example_base_substituted:
  "linux_fallback (chat_base ''http://d'' (example_args ''GPT-4o'' ''http://host.docker.internal:8000''))
     \<noteq> chat_base ''http://d'' (example_args ''GPT-4o'' ''http://host.docker.internal:8000'')"
  by code_simp

theorem retry_once_on_os_error_witness:
  "map req_url
     (new_requests init_picker
        (snd (fetch_models (fail_first URLError example_payload)
                ''http://host.docker.internal:8000'' init_picker)))
     = [''http://host.docker.internal:8000/v1/models'', ''http://172.17.0.1:8000/v1/models'']
   \<and> fst (fetch_models (fail_first URLError example_payload)
            ''http://host.docker.internal:8000'' init_picker)
     = models_of_payload example_payload
   \<and> map req_url
        (new_requests init_picker
           (snd (call_chat ''http://d'' (fail_first URLError example_reply) []
                   (example_args ''GPT-4o'' ''http://host.docker.internal:8000'') init_picker)))
     = [''http://host.docker.internal:8000/v1/chat/completions'',
        ''http://172.17.0.1:8000/v1/chat/completions'']
   \<and> fst (call_chat ''http://d'' (fail_first URLError example_reply) []
            (example_args ''GPT-4o'' ''http://host.docker.internal:8000'') init_picker)
     = Inr (parse_response example_reply)
   \<and> map req_url
        (new_requests init_picker
           (snd (fetch_models (always_fail ValueError) ''http://h'' init_picker)))
     = [''http://h/v1/models'']
   \<and> fst (fetch_models (always_fail ValueError) ''http://h'' init_picker) = Inl ValueError"
proof -
  have l0: "length (sent init_picker) = 0" "last_text init_picker = None"
    by (simp_all add: init_picker_def)
  have fb: "linux_fallback ''http://host.docker.internal:8000'' = ''http://172.17.0.1:8000''"
    by code_simp
  have cb: "chat_base ''http://d'' (example_args ''GPT-4o'' ''http://host.docker.internal:8000'')
              = ''http://host.docker.internal:8000''"
    by code_simp
  note T1 = retry_once_on_os_error [of URLError "fail_first URLError example_payload" init_picker
      "''http://host.docker.internal:8000''" "''http://d''"
      "example_args ''GPT-4o'' ''http://host.docker.internal:8000''" "[]"]
  note T2 = retry_once_on_os_error [of URLError "fail_first URLError example_reply" init_picker
      "''http://host.docker.internal:8000''" "''http://d''"
      "example_args ''GPT-4o'' ''http://host.docker.internal:8000''" "[]"]
  note T3 = retry_once_on_os_error [of ValueError "always_fail ValueError" init_picker
      "''http://h''" "''http://d''" "example_args ''GPT-4o'' ''http://h''" "[]"]
  have g: "new_requests init_picker
        (snd (fetch_models (fail_first URLError example_payload)
                ''http://host.docker.internal:8000'' init_picker))
      = [get_request (''http://host.docker.internal:8000'' @ ''/v1/models''),
         get_request (linux_fallback ''http://host.docker.internal:8000'' @ ''/v1/models'')]"
      "fst (fetch_models (fail_first URLError example_payload)
            ''http://host.docker.internal:8000'' init_picker)
       = models_of_payload example_payload"
    using T1 by (simp_all add: l0 fail_first_def)
  have p: "new_requests init_picker
           (snd (call_chat ''http://d'' (fail_first URLError example_reply) []
                   (example_args ''GPT-4o'' ''http://host.docker.internal:8000'') init_picker))
      = [post_request (''http://host.docker.internal:8000'' @ ''/v1/chat/completions'')
           (chat_payload [] (example_args ''GPT-4o'' ''http://host.docker.internal:8000'') init_picker),
         post_request (linux_fallback ''http://host.docker.internal:8000'' @ ''/v1/chat/completions'')
           (chat_payload [] (example_args ''GPT-4o'' ''http://host.docker.internal:8000'') init_picker)]"
      "fst (call_chat ''http://d'' (fail_first URLError example_reply) []
            (example_args ''GPT-4o'' ''http://host.docker.internal:8000'') init_picker)
       = Inr (parse_response example_reply)"
    using T2 example_base_substituted by (simp_all add: l0 fail_first_def cb)
  have v: "new_requests init_picker
           (snd (fetch_models (always_fail ValueError) ''http://h'' init_picker))
      = [get_request (''http://h'' @ ''/v1/models'')]"
      "fst (fetch_models (always_fail ValueError) ''http://h'' init_picker) = Inl ValueError"
    using T3 by (simp_all add: l0 always_fail_def)
  show ?thesis
    by (simp add: g p v fb get_request_def post_request_def)
qed

text \<open>
  The claim as stated fails in two ways. A POST to a base that does not name
  \<open>host.docker.internal\<close> is not retried after a transport-level failure: one request
  is issued and the failure is raised. And a discovery GET that is answered with an HTTP
  error status is retried: \<open>urlopen\<close> raises \<open>HTTPError\<close>, which the handler catches, and
  the second request's payload is used.
\<close>

theorem retry_policy_counterexample:
  "fst (call_chat ''http://d'' (always_fail URLError) []
          (example_args ''GPT-4o'' ''http://h'') init_picker) = Inl URLError
   \<and> map req_url (sent (snd (call_chat ''http://d'' (always_fail URLError) []
                              (example_args ''GPT-4o'' ''http://h'') init_picker)))
     = [''http://h/v1/chat/completions'']
   \<and> map req_url (sent (snd (fetch_models (fail_first (HTTPError 500) example_payload)
                              ''http://host.docker.internal:8000'' init_picker)))
     = [''http://host.docker.internal:8000/v1/models'', ''http://172.17.0.1:8000/v1/models'']
   \<and> fst (fetch_models (fail_first (HTTPError 500) example_payload)
            ''http://host.docker.internal:8000'' init_picker)
     = Inr [(''Alpha'', ''m1''), (''alpha'', ''m3''), (''beta'', ''m2'')]"
  by code_simp

subsection \<open>The cached result\<close>

lemma call_chat_cached_state:
  "last_text s = Some t \<Longrightarrow> call_chat dflt net tools a s = (Inr t, s)"
  by (simp add: call_chat_def)

lemma post_chat_requests:
  assumes "post_chat net base body s = (r, s1)"
  shows "\<exists>rs. s1 = s\<lparr>sent := sent s @ rs\<rparr>
           \<and> (rs = [post_request (base @ ''/v1/chat/completions'') body]
              \<or> rs = [post_request (base @ ''/v1/chat/completions'') body,
                      post_request (linux_fallback base @ ''/v1/chat/completions'') body]
                \<and> (\<exists>e. net (length (sent s)) (post_request (base @ ''/v1/chat/completions'') body)
                          = Inl e \<and> is_os_error e)
                \<and> linux_fallback base \<noteq> base)"
proof (cases "net (length (sent s)) (post_request (base @ ''/v1/chat/completions'') body)")
  case (Inr resp)
  with assms show ?thesis
    by (auto simp: post_chat_first_ok)
next
  case (Inl e)
  show ?thesis
  proof (cases "is_os_error e \<and> linux_fallback base \<noteq> base")
    case True
    with Inl assms show ?thesis
      by (auto simp: post_chat_first_retried)
  next
    case False
    then have "\<not> is_os_error e \<or> linux_fallback base = base" by blast
    with Inl assms show ?thesis
      by (auto simp: post_chat_first_not_retried)
  qed
qed

lemma call_chat_returns:
  assumes "last_text s = None" and "call_chat dflt net tools a s = (Inr t, s')"
  shows "\<exists>rs. s' = s\<lparr>sent := sent s @ rs, last_text := Some t\<rparr>
           \<and> (rs = [post_request (chat_base dflt a @ ''/v1/chat/completions'') (chat_payload tools a s)]
              \<or> rs = [post_request (chat_base dflt a @ ''/v1/chat/completions'') (chat_payload tools a s),
                      post_request (linux_fallback (chat_base dflt a) @ ''/v1/chat/completions'')
                        (chat_payload tools a s)]
                \<and> (\<exists>e. net (length (sent s))
                          (post_request (chat_base dflt a @ ''/v1/chat/completions'')
                             (chat_payload tools a s)) = Inl e \<and> is_os_error e)
                \<and> linux_fallback (chat_base dflt a) \<noteq> chat_base dflt a)"
proof -
  obtain r s1 where pc: "post_chat net (chat_base dflt a) (chat_payload tools a s) s = (r, s1)"
    by (cases "post_chat net (chat_base dflt a) (chat_payload tools a s) s")
  from assms pc obtain resp where r: "r = Inr resp" "t = parse_response resp"
      "s' = s1\<lparr>last_text := Some t\<rparr>"
    by (cases r) (auto simp: call_chat_uncached)
  from post_chat_requests [OF pc] r(3) show ?thesis
    by auto
qed

text \<open>
  C3, as the code has it. Once \<open>_call_chat\<close> has returned a text, every later call on the
  instance, with any arguments and whatever the network would answer, returns that same
  text and leaves the instance and the list of issued requests unchanged: no further
  request is made. The call that computed the text issued exactly one POST, or exactly
  two when the first one raised an exception the handler catches and the host
  substitution changed the base; a call on an instance that already holds a text issues
  none. A call that raises stores no text, so the next call goes to the network again.
\<close>

theorem call_chat_computed_once:
  assumes "call_chat dflt net tools a s = (Inr t, s')"
  shows "call_chat dflt' net' tools' a' s' = (Inr t, s')
       \<and> (last_text s \<noteq> None \<longrightarrow> s' = s)
       \<and> (last_text s = None \<longrightarrow>
            (length (new_requests s s') = 1 \<or> length (new_requests s s') = 2)
            \<and> (\<forall>rq \<in> set (new_requests s s'). req_method rq = ''POST'')
            \<and> (length (new_requests s s') = 2 \<longrightarrow>
                 (\<exists>e. net (length (sent s))
                         (post_request (chat_base dflt a @ ''/v1/chat/completions'')
                            (chat_payload tools a s)) = Inl e \<and> is_os_error e)
                 \<and> linux_fallback (chat_base dflt a) \<noteq> chat_base dflt a))"
proof (cases "last_text s")
  case (Some t0)
  with assms have "t = t0" "s' = s"
    by (simp_all add: call_chat_cached_state)
  with Some show ?thesis
    by (simp add: call_chat_cached_state)
next
  case None
  from call_chat_returns [OF None assms] obtain rs where
    rs: "s' = s\<lparr>sent := sent s @ rs, last_text := Some t\<rparr>"
      "rs = [post_request (chat_base dflt a @ ''/v1/chat/completions'') (chat_payload tools a s)]
       \<or> rs = [post_request (chat_base dflt a @ ''/v1/chat/completions'') (chat_payload tools a s),
               post_request (linux_fallback (chat_base dflt a) @ ''/v1/chat/completions'')
                 (chat_payload tools a s)]
         \<and> (\<exists>e. net (length (sent s))
                   (post_request (chat_base dflt a @ ''/v1/chat/completions'')
                      (chat_payload tools a s)) = Inl e \<and> is_os_error e)
         \<and> linux_fallback (chat_base dflt a) \<noteq> chat_base dflt a"
    by blast
  have nr: "new_requests s s' = rs"
    using rs(1) by simp
  have again: "call_chat dflt' net' tools' a' s' = (Inr t, s')"
    using rs(1) by (simp add: call_chat_cached_state)
  have posts: "\<forall>rq \<in> set rs. req_method rq = ''POST''"
    using rs(2) by (auto simp: post_request_def)
  from rs(2) have len: "length rs = 1 \<or> length rs = 2" by auto
  from rs(2) have two: "length rs = 2 \<longrightarrow>
       (\<exists>e. net (length (sent s))
               (post_request (chat_base dflt a @ ''/v1/chat/completions'')
                  (chat_payload tools a s)) = Inl e \<and> is_os_error e)
       \<and> linux_fallback (chat_base dflt a) \<noteq> chat_base dflt a"
    by auto
  from None again posts len two show ?thesis
    unfolding nr by simp
qed

lemma call_chat_example:
  "call_chat ''http://d'' (fail_first URLError example_reply) []
     (example_args ''GPT-4o'' ''http://host.docker.internal:8000'') init_picker
   = (Inr ''hello'',
      init_picker\<lparr>sent :=
          [post_request ''http://host.docker.internal:8000/v1/chat/completions''
             (chat_payload [] (example_args ''GPT-4o'' ''http://host.docker.internal:8000'') init_picker),
           post_request ''http://172.17.0.1:8000/v1/chat/completions''
             (chat_payload [] (example_args ''GPT-4o'' ''http://host.docker.internal:8000'') init_picker)],
        last_text := Some ''hello''\<rparr>)"
  by code_simp

text \<open>
  The first POST fails, the second is answered with \<open>hello\<close>; a second read, with other
  arguments and a network that would answer otherwise, returns \<open>hello\<close> and adds no
  request.
\<close>

theorem call_chat_computed_once_witness:
  "fst (call_chat ''http://d'' (fail_first URLError example_reply) []
          (example_args ''GPT-4o'' ''http://host.docker.internal:8000'') init_picker) = Inr ''hello''
   \<and> call_chat ''http://other'' (always_reply (JObj [])) []
        (example_args ''AX4 Model'' ''http://h'')
        (snd (call_chat ''http://d'' (fail_first URLError example_reply) []
                (example_args ''GPT-4o'' ''http://host.docker.internal:8000'') init_picker))
      = (Inr ''hello'',
         snd (call_chat ''http://d'' (fail_first URLError example_reply) []
                (example_args ''GPT-4o'' ''http://host.docker.internal:8000'') init_picker))
   \<and> length (new_requests init_picker
               (snd (call_chat ''http://d'' (fail_first URLError example_reply) []
                       (example_args ''GPT-4o'' ''http://host.docker.internal:8000'') init_picker)))
      = 2"
proof -
  have n: "last_text init_picker = None" by (simp add: init_picker_def)
  note T = call_chat_computed_once [OF call_chat_example,
      of "''http://other''" "always_reply (JObj [])" "[]" "example_args ''AX4 Model'' ''http://h''"]
  from T have again:
    "call_chat ''http://other'' (always_reply (JObj [])) []
        (example_args ''AX4 Model'' ''http://h'')
        (snd (call_chat ''http://d'' (fail_first URLError example_reply) []
                (example_args ''GPT-4o'' ''http://host.docker.internal:8000'') init_picker))
      = (Inr ''hello'',
         snd (call_chat ''http://d'' (fail_first URLError example_reply) []
                (example_args ''GPT-4o'' ''http://host.docker.internal:8000'') init_picker))"
    by (simp add: call_chat_example)
  have first: "fst (call_chat ''http://d'' (fail_first URLError example_reply) []
          (example_args ''GPT-4o'' ''http://host.docker.internal:8000'') init_picker) = Inr ''hello''"
    by (simp add: call_chat_example)
  have e: "sent init_picker = []" by (simp add: init_picker_def)
  have two: "length (new_requests init_picker
               (snd (call_chat ''http://d'' (fail_first URLError example_reply) []
                       (example_args ''GPT-4o'' ''http://host.docker.internal:8000'') init_picker)))
      = 2"
    by (simp add: call_chat_example new_requests_def e)
  from first again two show ?thesis by blast
qed

lemma call_chat_raise_stores_nothing:
  assumes "last_text s = None" and "call_chat dflt net tools a s = (Inl e, s')"
  shows "last_text s' = None"
proof -
  obtain pr s1 where pc: "post_chat net (chat_base dflt a) (chat_payload tools a s) s = (pr, s1)"
    by (cases "post_chat net (chat_base dflt a) (chat_payload tools a s) s")
  from post_chat_requests [OF pc] assms(1) have "last_text s1 = None" by auto
  moreover from assms pc have "s' = s1"
    by (cases pr) (auto simp: call_chat_uncached)
  ultimately show ?thesis by simp
qed

text \<open>
  The claim as stated fails when the first call raises. At the base \<open>http://h\<close>, which the
  host substitution leaves unchanged, the first POST fails with \<open>URLError\<close>: the call
  raises and stores no text. The next read therefore issues a new POST, which is answered
  with \<open>hello\<close>: the network layer has seen two POSTs to the same URL, and no host
  substitution took place.
\<close>

theorem call_chat_raise_not_cached_counterexample:
  "fst (call_chat ''http://d'' (fail_first URLError example_reply) []
          (example_args ''GPT-4o'' ''http://h'') init_picker) = Inl URLError
   \<and> last_text (snd (call_chat ''http://d'' (fail_first URLError example_reply) []
                       (example_args ''GPT-4o'' ''http://h'') init_picker)) = None
   \<and> map req_url (sent (snd (call_chat ''http://d'' (fail_first URLError example_reply) []
                              (example_args ''GPT-4o'' ''http://h'') init_picker)))
      = [''http://h/v1/chat/completions'']
   \<and> fst (call_chat ''http://d'' (fail_first URLError example_reply) []
            (example_args ''GPT-4o'' ''http://h'')
            (snd (call_chat ''http://d'' (fail_first URLError example_reply) []
                    (example_args ''GPT-4o'' ''http://h'') init_picker))) = Inr ''hello''
   \<and> map (\<lambda>rq. (req_method rq, req_url rq))
        (sent (snd (call_chat ''http://d'' (fail_first URLError example_reply) []
                      (example_args ''GPT-4o'' ''http://h'')
                      (snd (call_chat ''http://d'' (fail_first URLError example_reply) []
                              (example_args ''GPT-4o'' ''http://h'') init_picker)))))
      = [(''POST'', ''http://h/v1/chat/completions''), (''POST'', ''http://h/v1/chat/completions'')]
   \<and> linux_fallback ''http://h'' = ''http://h''"
  by code_simp

subsection \<open>The cached map\<close>

lemma set_dict_set: "set (dict_set d k v) \<subseteq> insert (k, v) (set d)"
  by (induction d k v rule: dict_set.induct) auto

lemma dict_set_nonempty: "dict_set d k v \<noteq> []"
  by (induction d k v rule: dict_set.induct) simp_all

lemma set_foldl_dict_set:
  "set (foldl (\<lambda>d kv. dict_set d (fst kv) (snd kv)) d ps) \<subseteq> set d \<union> set ps"
proof (induction ps arbitrary: d)
  case Nil
  then show ?case by simp
next
  case (Cons p ps)
  have "set (foldl (\<lambda>d kv. dict_set d (fst kv) (snd kv)) (dict_set d (fst p) (snd p)) ps)
          \<subseteq> set (dict_set d (fst p) (snd p)) \<union> set ps"
    by (rule Cons.IH)
  moreover have "set (dict_set d (fst p) (snd p)) \<subseteq> insert p (set d)"
    using set_dict_set [of d "fst p" "snd p"] by simp
  ultimately have "set (foldl (\<lambda>d kv. dict_set d (fst kv) (snd kv)) (dict_set d (fst p) (snd p)) ps)
          \<subseteq> insert p (set d) \<union> set ps"
    by blast
  then show ?case by simp
qed

lemma foldl_dict_set_nonempty:
  "d \<noteq> [] \<Longrightarrow> foldl (\<lambda>d kv. dict_set d (fst kv) (snd kv)) d ps \<noteq> []"
proof (induction ps arbitrary: d)
  case Nil
  then show ?case by simp
next
  case (Cons p ps)
  have "dict_set d (fst p) (snd p) \<noteq> []" by (rule dict_set_nonempty)
  then show ?case using Cons.IH by simp
qed

lemma dict_of_pairs_alt:
  "dict_of_pairs ps = foldl (\<lambda>d kv. dict_set d (fst kv) (snd kv)) [] ps"
  by (simp add: dict_of_pairs_def case_prod_unfold)

lemma set_dict_of_pairs: "set (dict_of_pairs ps) \<subseteq> set ps"
  using set_foldl_dict_set [of "[]" ps] by (simp add: dict_of_pairs_alt)

lemma dict_of_pairs_nonempty: "ps \<noteq> [] \<Longrightarrow> dict_of_pairs ps \<noteq> []"
proof (cases ps)
  case Nil
  assume "ps \<noteq> []"
  with Nil show ?thesis by simp
next
  case (Cons p qs)
  have "foldl (\<lambda>d kv. dict_set d (fst kv) (snd kv)) (dict_set [] (fst p) (snd p)) qs \<noteq> []"
    by (rule foldl_dict_set_nonempty) (rule dict_set_nonempty)
  with Cons show ?thesis by (simp add: dict_of_pairs_alt)
qed

lemma fallback_ids_nonempty: "(n, i) \<in> set fallback_pairs \<Longrightarrow> i \<noteq> []"
  unfolding fallback_pairs_def by fastforce

lemma fetch_models_attrs:
  "fetch_models net base s = (r, s') \<Longrightarrow>
   name_to_id s' = name_to_id s \<and> last_text s' = last_text s
   \<and> did_initial_fetch s' = did_initial_fetch s"
  by (auto simp: fetch_models_def http_get_json_def Let_def split: sum.splits if_splits)

lemma fetch_models_ids_nonempty:
  assumes "fetch_models net base s = (Inr pairs, s')" and "(n, i) \<in> set pairs"
  shows "i \<noteq> []"
proof -
  from assms(1) obtain payload where "models_of_payload payload = Inr pairs"
    using fetch_models_Inr by blast
  then obtain items where "pairs = sort_key (\<lambda>p. py_lower (fst p)) (collect_pairs items)"
    using models_of_payload_Inr by blast
  with assms(2) have "(n, i) \<in> set (collect_pairs items)" by simp
  then show ?thesis by (auto simp: set_collect_pairs)
qed

lemma use_fallback_name_to_id:
  "use_fallback cv bc s = (r, s') \<Longrightarrow> name_to_id s' = dict_of_pairs fallback_pairs"
  by (auto simp: use_fallback_def Let_def split: sum.splits)

lemma refresh_try_name_to_id:
  assumes "refresh_try net base cv bc s = (r, s')"
  shows "name_to_id s' = name_to_id s
       \<or> name_to_id s' = dict_of_pairs fallback_pairs
       \<or> (\<exists>pairs s1. fetch_models net base s = (Inr pairs, s1) \<and> name_to_id s' = dict_of_pairs pairs)"
proof -
  obtain fr s1 where f: "fetch_models net base s = (fr, s1)"
    by (cases "fetch_models net base s")
  show ?thesis
  proof (cases fr)
    case (Inl e)
    with assms f have "s' = s1" by (simp add: refresh_try_def)
    with f show ?thesis using fetch_models_attrs by blast
  next
    case (Inr pairs)
    show ?thesis
    proof (cases "pairs = []")
      case True
      with assms f Inr have "use_fallback cv bc s1 = (r, s')" by (simp add: refresh_try_def)
      then show ?thesis using use_fallback_name_to_id by blast
    next
      case False
      with assms f Inr have "name_to_id s' = dict_of_pairs pairs"
        by (auto simp: refresh_try_def Let_def split: sum.splits)
      with f Inr show ?thesis by blast
    qed
  qed
qed

lemma update_build_config_name_to_id:
  assumes "update_build_config dflt net bc fv fn s = (r, s')"
  shows "name_to_id s' = name_to_id s
       \<or> name_to_id s' = dict_of_pairs fallback_pairs
       \<or> (\<exists>base pairs s1. fetch_models net base s = (Inr pairs, s1)
             \<and> name_to_id s' = dict_of_pairs pairs)"
proof (cases "refresh_base dflt bc fv fn")
  case (Inl e)
  with assms show ?thesis by (simp add: update_build_config_def)
next
  case (Inr base)
  show ?thesis
  proof (cases "should_refresh s bc fn")
    case False
    with assms Inr show ?thesis by (simp add: update_build_config_def)
  next
    case True
    define cv where "cv = (case bc_model_name bc of None \<Rightarrow> [] | Some d \<Rightarrow> dd_value d)"
    obtain tr st where t: "refresh_try net base cv bc s = (tr, st)"
      by (cases "refresh_try net base cv bc s")
    show ?thesis
    proof (cases tr)
      case (Inl e)
      obtain ur su where u: "use_fallback cv bc st = (ur, su)"
        by (cases "use_fallback cv bc st")
      with assms Inr True t Inl have "s' = su"
        by (auto simp: update_build_config_def cv_def Let_def split: sum.splits)
      with u show ?thesis using use_fallback_name_to_id by blast
    next
      case (Inr bc')
      with assms \<open>refresh_base dflt bc fv fn = Inr base\<close> True t have "s' = st"
        by (auto simp: update_build_config_def cv_def Let_def split: sum.splits)
      with t show ?thesis using refresh_try_name_to_id by blast
    qed
  qed
qed

lemma call_chat_name_to_id:
  "call_chat dflt net tools a s = (r, s') \<Longrightarrow> name_to_id s' = name_to_id s"
proof (cases "last_text s")
  case None
  assume c: "call_chat dflt net tools a s = (r, s')"
  obtain pr s1 where pc: "post_chat net (chat_base dflt a) (chat_payload tools a s) s = (pr, s1)"
    by (cases "post_chat net (chat_base dflt a) (chat_payload tools a s) s")
  from post_chat_requests [OF pc] have "name_to_id s1 = name_to_id s" by auto
  with c None pc show ?thesis
    by (auto simp: call_chat_uncached split: sum.splits)
next
  case (Some t)
  assume "call_chat dflt net tools a s = (r, s')"
  with Some show ?thesis by (simp add: call_chat_cached_state)
qed

lemma reachable_ids_nonempty:
  "reachable s \<Longrightarrow> (n, i) \<in> set (name_to_id s) \<Longrightarrow> i \<noteq> []"
proof (induction arbitrary: n i rule: reachable.induct)
  case (fresh reqs)
  then show ?case by (simp add: init_picker_def)
next
  case (refresh s dflt net bc fv fn r s')
  from update_build_config_name_to_id [OF refresh.hyps(2)]
  consider "name_to_id s' = name_to_id s"
    | "name_to_id s' = dict_of_pairs fallback_pairs"
    | base pairs s1 where "fetch_models net base s = (Inr pairs, s1)"
        "name_to_id s' = dict_of_pairs pairs"
    by blast
  then show ?case
  proof cases
    case 1
    with refresh show ?thesis by simp
  next
    case 2
    with refresh.prems have "(n, i) \<in> set fallback_pairs"
      using set_dict_of_pairs by fastforce
    then show ?thesis by (rule fallback_ids_nonempty)
  next
    case 3
    with refresh.prems have "(n, i) \<in> set pairs"
      using set_dict_of_pairs by fastforce
    with 3(1) show ?thesis by (rule fetch_models_ids_nonempty)
  qed
next
  case (chat s dflt net tools a r s')
  then show ?case using call_chat_name_to_id by fastforce
qed

lemma call_chat_requests:
  assumes "last_text s = None" and "call_chat dflt net tools a s = (r, s')"
  shows "new_requests s s' \<noteq> []
       \<and> (\<forall>rq \<in> set (new_requests s s'). req_body rq = Some (chat_payload tools a s))"
proof -
  obtain pr s1 where pc: "post_chat net (chat_base dflt a) (chat_payload tools a s) s = (pr, s1)"
    by (cases "post_chat net (chat_base dflt a) (chat_payload tools a s) s")
  from post_chat_requests [OF pc] obtain rs where
    rs: "s1 = s\<lparr>sent := sent s @ rs\<rparr>" "rs \<noteq> []"
      "\<forall>rq \<in> set rs. req_body rq = Some (chat_payload tools a s)"
    by (auto simp: post_request_def)
  from assms pc have "sent s' = sent s1"
    by (auto simp: call_chat_uncached split: sum.splits)
  with rs show ?thesis by (simp add: new_requests_def)
qed

text \<open>
  C5. In every state the instance can reach, a call of \<open>_call_chat\<close> that goes to the
  network (no text is cached yet) issues at least one request, and the body of every
  request it issues has as its \<open>model\<close> field the identifier that the cached map gives for
  the selected label when the label is in the map, and the first identifier of the
  hardcoded default list, \<open>gpt-4o-mini\<close>, when it is not.
\<close>

theorem chat_request_model_field:
  assumes "reachable s" and "last_text s = None"
    and "call_chat dflt net tools a s = (r, s')"
  shows "new_requests s s' \<noteq> []
       \<and> (\<forall>rq \<in> set (new_requests s s'). \<exists>body. req_body rq = Some body
             \<and> payload_model body =
                 JStr (case map_of (name_to_id s) (model_name a) of
                         Some i \<Rightarrow> i
                       | None \<Rightarrow> ''gpt-4o-mini''))
       \<and> map snd (take 1 fallback_pairs) = [''gpt-4o-mini'']"
proof -
  have m: "resolve_model_id s (model_name a)
             = (case map_of (name_to_id s) (model_name a) of Some i \<Rightarrow> i | None \<Rightarrow> ''gpt-4o-mini'')"
  proof (cases "map_of (name_to_id s) (model_name a)")
    case None
    then show ?thesis by (simp add: resolve_model_id_cases)
  next
    case (Some i)
    then have "(model_name a, i) \<in> set (name_to_id s)" by (rule map_of_SomeD)
    with assms(1) have "i \<noteq> []" by (rule reachable_ids_nonempty)
    with Some show ?thesis by (simp add: resolve_model_id_cases)
  qed
  have fp: "map snd (take 1 fallback_pairs) = [''gpt-4o-mini'']"
    by (simp add: fallback_pairs_def)
  from call_chat_requests [OF assms(2,3)] m
  have "new_requests s s' \<noteq> []
       \<and> (\<forall>rq \<in> set (new_requests s s'). \<exists>body. req_body rq = Some body
             \<and> payload_model body =
                 JStr (case map_of (name_to_id s) (model_name a) of
                         Some i \<Rightarrow> i
                       | None \<Rightarrow> ''gpt-4o-mini''))"
    by (simp add: payload_model_chat_payload)
  with fp show ?thesis by blast
qed

lemma refresh_example:
  "update_build_config ''http://d'' (always_reply example_payload) example_config JNull None
     init_picker
   = (Inr (example_config\<lparr>bc_model_name :=
              Some \<lparr>dd_options = [''Alpha'', ''alpha'', ''beta''], dd_value = ''Alpha''\<rparr>,
            bc_refresh_now := Some (JBool False)\<rparr>),
      refreshed_picker)"
  by code_simp

lemma reachable_refreshed_picker: "reachable refreshed_picker"
proof -
  have "init_picker\<lparr>sent := []\<rparr> = init_picker" by (simp add: init_picker_def)
  then have "reachable init_picker" using reachable.fresh [of "[]"] by simp
  then show ?thesis using refresh_example by (rule reachable.refresh)
qed

lemma call_chat_refreshed_known:
  "call_chat ''http://d'' (always_reply example_reply) [] (example_args ''beta'' ''http://h'')
     refreshed_picker
   = (Inr ''hello'',
      refreshed_picker\<lparr>sent := [get_request ''http://h/v1/models'',
          post_request ''http://h/v1/chat/completions''
            (JObj [(''model'', JStr ''m2''),
                   (''messages'', JArr [chat_message ''user'' ''hi''])])],
        last_text := Some ''hello''\<rparr>)"
  by code_simp

lemma call_chat_refreshed_unknown:
  "call_chat ''http://d'' (always_reply example_reply) [] (example_args ''gamma'' ''http://h'')
     refreshed_picker
   = (Inr ''hello'',
      refreshed_picker\<lparr>sent := [get_request ''http://h/v1/models'',
          post_request ''http://h/v1/chat/completions''
            (JObj [(''model'', JStr ''gpt-4o-mini''),
                   (''messages'', JArr [chat_message ''user'' ''hi''])])],
        last_text := Some ''hello''\<rparr>)"
  by code_simp

text \<open>
  After a refresh answered with the example payload, the label \<open>beta\<close> is sent as \<open>m2\<close>
  and the unknown label \<open>gamma\<close> as \<open>gpt-4o-mini\<close>.
\<close>

theorem chat_request_model_field_witness:
  "reachable refreshed_picker \<and> last_text refreshed_picker = None
   \<and> map_of (name_to_id refreshed_picker) ''beta'' = Some ''m2''
   \<and> map_of (name_to_id refreshed_picker) ''gamma'' = None
   \<and> new_requests refreshed_picker
         (snd (call_chat ''http://d'' (always_reply example_reply) []
                 (example_args ''beta'' ''http://h'') refreshed_picker)) \<noteq> []
   \<and> map (\<lambda>rq. map_option payload_model (req_body rq))
         (new_requests refreshed_picker
            (snd (call_chat ''http://d'' (always_reply example_reply) []
                    (example_args ''beta'' ''http://h'') refreshed_picker)))
       = [Some (JStr ''m2'')]
   \<and> map (\<lambda>rq. map_option payload_model (req_body rq))
         (new_requests refreshed_picker
            (snd (call_chat ''http://d'' (always_reply example_reply) []
                    (example_args ''gamma'' ''http://h'') refreshed_picker)))
       = [Some (JStr ''gpt-4o-mini'')]"
proof -
  have n: "last_text refreshed_picker = None" by (simp add: refreshed_picker_def)
  have k: "map_of (name_to_id refreshed_picker) ''beta'' = Some ''m2''"
    by (simp add: refreshed_picker_def)
  have u: "map_of (name_to_id refreshed_picker) ''gamma'' = None"
    by (simp add: refreshed_picker_def)
  have se: "sent refreshed_picker = [get_request ''http://h/v1/models'']"
    by (simp add: refreshed_picker_def)
  note T = chat_request_model_field [OF reachable_refreshed_picker n call_chat_refreshed_known]
  have r1: "new_requests refreshed_picker
         (snd (call_chat ''http://d'' (always_reply example_reply) []
                 (example_args ''beta'' ''http://h'') refreshed_picker)) \<noteq> []"
    using T by (simp add: call_chat_refreshed_known)
  have r2: "map (\<lambda>rq. map_option payload_model (req_body rq))
         (new_requests refreshed_picker
            (snd (call_chat ''http://d'' (always_reply example_reply) []
                    (example_args ''beta'' ''http://h'') refreshed_picker)))
       = [Some (JStr ''m2'')]"
    by (simp add: call_chat_refreshed_known new_requests_def se post_request_def
          payload_model_def jget_def)
  have r3: "map (\<lambda>rq. map_option payload_model (req_body rq))
         (new_requests refreshed_picker
            (snd (call_chat ''http://d'' (always_reply example_reply) []
                    (example_args ''gamma'' ''http://h'') refreshed_picker)))
       = [Some (JStr ''gpt-4o-mini'')]"
    by (simp add: call_chat_refreshed_unknown new_requests_def se post_request_def
          payload_model_def jget_def)
  from reachable_refreshed_picker n k u r1 r2 r3 show ?thesis by blast
qed

subsection \<open>The dropdown after a refresh\<close>

lemma set_model_names_Some:
  assumes "bc_model_name bc = Some d" and "names \<noteq> []"
  shows "\<exists>bc' d'. set_model_names names cv bc = Inr bc' \<and> bc_model_name bc' = Some d'
           \<and> dd_options d' = names \<and> bc_refresh_now bc' = bc_refresh_now bc"
proof (cases names)
  case Nil
  with assms(2) show ?thesis by simp
next
  case (Cons n ns)
  with assms(1) show ?thesis
    by (simp add: set_model_names_def)
qed

lemma use_fallback_Some:
  assumes "bc_model_name bc = Some d"
  shows "\<exists>bc' d' s'. use_fallback cv bc s = (Inr bc', s') \<and> bc_model_name bc' = Some d'
           \<and> dd_options d' = map fst fallback_pairs"
proof -
  have ne: "map fst fallback_pairs \<noteq> []" by (simp add: fallback_pairs_def)
  from set_model_names_Some [OF assms ne, of cv] obtain bc' d' where
    "set_model_names (map fst fallback_pairs) cv bc = Inr bc'" "bc_model_name bc' = Some d'"
    "dd_options d' = map fst fallback_pairs"
    by blast
  then show ?thesis by (simp add: use_fallback_def Let_def)
qed

lemma refresh_try_Some:
  assumes "bc_model_name bc = Some d"
  shows "(\<exists>e s'. refresh_try net base cv bc s = (Inl e, s')
            \<and> (\<exists>e'. fst (fetch_models net base s) = Inl e'))
       \<or> (\<exists>bc' d' s'. refresh_try net base cv bc s = (Inr bc', s') \<and> bc_model_name bc' = Some d'
            \<and> dd_options d' \<noteq> []
            \<and> (fst (fetch_models net base s) = Inr [] \<longrightarrow> dd_options d' = map fst fallback_pairs)
            \<and> (\<forall>e'. fst (fetch_models net base s) \<noteq> Inl e'))"
proof -
  obtain fr s1 where f: "fetch_models net base s = (fr, s1)"
    by (cases "fetch_models net base s")
  show ?thesis
  proof (cases fr)
    case (Inl e)
    with f show ?thesis by (simp add: refresh_try_def)
  next
    case (Inr pairs)
    show ?thesis
    proof (cases "pairs = []")
      case True
      have ne: "map fst fallback_pairs \<noteq> []" by (simp add: fallback_pairs_def)
      from use_fallback_Some [OF assms, of cv s1] obtain bc' d' s' where
        "use_fallback cv bc s1 = (Inr bc', s')" "bc_model_name bc' = Some d'"
        "dd_options d' = map fst fallback_pairs"
        by blast
      with f Inr True ne show ?thesis by (simp add: refresh_try_def)
    next
      case False
      then have "dict_of_pairs pairs \<noteq> []" by (rule dict_of_pairs_nonempty)
      then have ne: "map fst (dict_of_pairs pairs) \<noteq> []" by simp
      from set_model_names_Some [OF assms ne, of cv] obtain bc' d' where
        "set_model_names (map fst (dict_of_pairs pairs)) cv bc = Inr bc'"
        "bc_model_name bc' = Some d'" "dd_options d' = map fst (dict_of_pairs pairs)"
        by blast
      with f Inr False ne show ?thesis by (simp add: refresh_try_def Let_def)
    qed
  qed
qed

lemma refresh_now_keeps_model_name:
  "bc_model_name (case bc_refresh_now bc1 of None \<Rightarrow> bc1
                  | Some x \<Rightarrow> bc1\<lparr>bc_refresh_now := Some (JBool False)\<rparr>) = bc_model_name bc1"
  by (simp split: option.splits)

text \<open>
  C4. Take a call of \<open>update_build_config\<close> that refreshes (the base URL normalises, the
  refresh condition holds and the build configuration has its \<open>model_name\<close> dropdown).
  The call returns, and the dropdown's options are never empty afterwards. Whenever the
  discovery call raises or returns no eligible item, the options are exactly the names
  of the hardcoded default list, which has four entries.
\<close>

theorem refresh_never_leaves_options_empty:
  assumes "refresh_base dflt bc fv fn = Inr base"
    and "should_refresh s bc fn"
    and "bc_model_name bc = Some d"
  shows "\<exists>bc' s' d'. update_build_config dflt net bc fv fn s = (Inr bc', s')
           \<and> bc_model_name bc' = Some d' \<and> dd_options d' \<noteq> []
           \<and> ((\<exists>e. fst (fetch_models net base s) = Inl e) \<or> fst (fetch_models net base s) = Inr []
                \<longrightarrow> dd_options d' = map fst fallback_pairs)
           \<and> map fst fallback_pairs
               = [''GPT-4o Mini'', ''GPT-4o'', ''text-embedding-3-small'', ''AX4 Model'']"
proof -
  let ?cv = "(case bc_model_name bc of None \<Rightarrow> [] | Some d \<Rightarrow> dd_value d)"
  have names: "map fst fallback_pairs
      = [''GPT-4o Mini'', ''GPT-4o'', ''text-embedding-3-small'', ''AX4 Model'']"
    by (simp add: fallback_pairs_def)
  have unfold: "update_build_config dflt net bc fv fn s =
      (let (r, s1) = (case refresh_try net base ?cv bc s of
                        (Inl e, s') \<Rightarrow> use_fallback ?cv bc s'
                      | (Inr bc', s') \<Rightarrow> (Inr bc', s'))
       in case r of
            Inl e \<Rightarrow> (Inl e, s1)
          | Inr bc1 \<Rightarrow>
              (Inr (case bc_refresh_now bc1 of
                      None \<Rightarrow> bc1
                    | Some _ \<Rightarrow> bc1\<lparr>bc_refresh_now := Some (JBool False)\<rparr>), s1))"
    using assms(1,2) by (simp add: update_build_config_def Let_def)
  from refresh_try_Some [OF assms(3), of net base ?cv s]
  consider
    (failed) e st where "refresh_try net base ?cv bc s = (Inl e, st)"
      "\<exists>e'. fst (fetch_models net base s) = Inl e'"
  | (returned) bc1 d1 st where "refresh_try net base ?cv bc s = (Inr bc1, st)"
      "bc_model_name bc1 = Some d1" "dd_options d1 \<noteq> []"
      "fst (fetch_models net base s) = Inr [] \<longrightarrow> dd_options d1 = map fst fallback_pairs"
      "\<forall>e'. fst (fetch_models net base s) \<noteq> Inl e'"
    by blast
  then show ?thesis
  proof cases
    case failed
    from use_fallback_Some [OF assms(3), of ?cv st] obtain bc1 d1 s1 where
      u: "use_fallback ?cv bc st = (Inr bc1, s1)" "bc_model_name bc1 = Some d1"
        "dd_options d1 = map fst fallback_pairs"
      by blast
    have "update_build_config dflt net bc fv fn s =
        (Inr (case bc_refresh_now bc1 of None \<Rightarrow> bc1
              | Some _ \<Rightarrow> bc1\<lparr>bc_refresh_now := Some (JBool False)\<rparr>), s1)"
      using failed(1) u(1) by (simp add: unfold)
    moreover have "bc_model_name (case bc_refresh_now bc1 of None \<Rightarrow> bc1
              | Some _ \<Rightarrow> bc1\<lparr>bc_refresh_now := Some (JBool False)\<rparr>) = Some d1"
      using u(2) by (simp add: refresh_now_keeps_model_name)
    moreover have "dd_options d1 \<noteq> []"
      using u(3) names by simp
    ultimately have "update_build_config dflt net bc fv fn s =
        (Inr (case bc_refresh_now bc1 of None \<Rightarrow> bc1
              | Some _ \<Rightarrow> bc1\<lparr>bc_refresh_now := Some (JBool False)\<rparr>), s1)
      \<and> bc_model_name (case bc_refresh_now bc1 of None \<Rightarrow> bc1
              | Some _ \<Rightarrow> bc1\<lparr>bc_refresh_now := Some (JBool False)\<rparr>) = Some d1
      \<and> dd_options d1 \<noteq> []
      \<and> ((\<exists>e. fst (fetch_models net base s) = Inl e) \<or> fst (fetch_models net base s) = Inr []
                \<longrightarrow> dd_options d1 = map fst fallback_pairs)
      \<and> map fst fallback_pairs
               = [''GPT-4o Mini'', ''GPT-4o'', ''text-embedding-3-small'', ''AX4 Model'']"
      using u(3) names by simp
    then show ?thesis by (intro exI)
  next
    case returned
    have "update_build_config dflt net bc fv fn s =
        (Inr (case bc_refresh_now bc1 of None \<Rightarrow> bc1
              | Some _ \<Rightarrow> bc1\<lparr>bc_refresh_now := Some (JBool False)\<rparr>), st)"
      using returned(1) by (simp add: unfold)
    moreover have "bc_model_name (case bc_refresh_now bc1 of None \<Rightarrow> bc1
              | Some _ \<Rightarrow> bc1\<lparr>bc_refresh_now := Some (JBool False)\<rparr>) = Some d1"
      using returned(2) by (simp add: refresh_now_keeps_model_name)
    ultimately have "update_build_config dflt net bc fv fn s =
        (Inr (case bc_refresh_now bc1 of None \<Rightarrow> bc1
              | Some _ \<Rightarrow> bc1\<lparr>bc_refresh_now := Some (JBool False)\<rparr>), st)
      \<and> bc_model_name (case bc_refresh_now bc1 of None \<Rightarrow> bc1
              | Some _ \<Rightarrow> bc1\<lparr>bc_refresh_now := Some (JBool False)\<rparr>) = Some d1
      \<and> dd_options d1 \<noteq> []
      \<and> ((\<exists>e. fst (fetch_models net base s) = Inl e) \<or> fst (fetch_models net base s) = Inr []
                \<longrightarrow> dd_options d1 = map fst fallback_pairs)
      \<and> map fst fallback_pairs
               = [''GPT-4o Mini'', ''GPT-4o'', ''text-embedding-3-small'', ''AX4 Model'']"
      using returned(3,4,5) names by simp
    then show ?thesis by (intro exI)
  qed
qed

lemma refresh_base_example: "refresh_base ''http://d'' example_config JNull None = Inr ''http://h''"
  by code_simp

lemma should_refresh_example: "should_refresh init_picker example_config None"
  by (simp add: should_refresh_def init_picker_def)

lemma model_name_example:
  "bc_model_name example_config = Some \<lparr>dd_options = [], dd_value = []\<rparr>"
  by (simp add: example_config_def)

lemma fetch_fails_example:
  "fst (fetch_models (always_fail URLError) ''http://h'' init_picker) = Inl URLError"
  by code_simp

lemma fetch_empty_example:
  "fst (fetch_models (always_reply (JObj [])) ''http://h'' init_picker) = Inr []"
  by code_simp

text \<open>
  A first refresh whose discovery call fails on both requests, and one that is answered
  with a payload without items: in both the dropdown gets the four default names.
\<close>

theorem refresh_never_leaves_options_empty_witness:
  "refresh_base ''http://d'' example_config JNull None = Inr ''http://h''
   \<and> should_refresh init_picker example_config None
   \<and> fst (fetch_models (always_fail URLError) ''http://h'' init_picker) = Inl URLError
   \<and> (\<exists>bc' s' d'. update_build_config ''http://d'' (always_fail URLError) example_config JNull None
                      init_picker = (Inr bc', s')
         \<and> bc_model_name bc' = Some d'
         \<and> dd_options d' = [''GPT-4o Mini'', ''GPT-4o'', ''text-embedding-3-small'', ''AX4 Model''])
   \<and> fst (fetch_models (always_reply (JObj [])) ''http://h'' init_picker) = Inr []
   \<and> (\<exists>bc' s' d'. update_build_config ''http://d'' (always_reply (JObj [])) example_config JNull None
                      init_picker = (Inr bc', s')
         \<and> bc_model_name bc' = Some d'
         \<and> dd_options d' = [''GPT-4o Mini'', ''GPT-4o'', ''text-embedding-3-small'', ''AX4 Model''])"
proof -
  note T = refresh_never_leaves_options_empty
      [OF refresh_base_example should_refresh_example model_name_example]
  from T [of "always_fail URLError"] fetch_fails_example
  have a: "\<exists>bc' s' d'. update_build_config ''http://d'' (always_fail URLError) example_config JNull None
                      init_picker = (Inr bc', s')
         \<and> bc_model_name bc' = Some d'
         \<and> dd_options d' = [''GPT-4o Mini'', ''GPT-4o'', ''text-embedding-3-small'', ''AX4 Model'']"
    by (elim exE conjE) (intro exI conjI, assumption, assumption, simp)
  from T [of "always_reply (JObj [])"] fetch_empty_example
  have b: "\<exists>bc' s' d'. update_build_config ''http://d'' (always_reply (JObj [])) example_config JNull None
                      init_picker = (Inr bc', s')
         \<and> bc_model_name bc' = Some d'
         \<and> dd_options d' = [''GPT-4o Mini'', ''GPT-4o'', ''text-embedding-3-small'', ''AX4 Model'']"
    by (elim exE conjE) (intro exI conjI, assumption, assumption, simp)
  show ?thesis
    by (intro conjI refresh_base_example should_refresh_example fetch_fails_example
          fetch_empty_example a b)
qed

section \<open>Properties of the tool invoker's call\<close>

lemma invoke_request_ok:
  "net (length reqs) (tool_request_of method url p) = Inr resp \<Longrightarrow> \<not> raises_for_status resp \<Longrightarrow>
   invoke_request net method url p tool_name reqs
     = (success_text (request_info method url tool_name) resp,
        reqs @ [tool_request_of method url p])"
  by (simp add: invoke_request_def tool_call_def Let_def)

lemma invoke_request_http_error_no_retry:
  "net (length reqs) (tool_request_of method url p) = Inr resp \<Longrightarrow> raises_for_status resp \<Longrightarrow>
   status_code resp \<noteq> 404 \<or> endswith ''/'' url \<Longrightarrow>
   invoke_request net method url p tool_name reqs
     = (http_error_text method url tool_name resp, reqs @ [tool_request_of method url p])"
  by (auto simp: invoke_request_def tool_call_def Let_def)

lemma raises_for_status_404: "status_code resp = 404 \<Longrightarrow> raises_for_status resp"
  by (simp add: raises_for_status_def)

lemma invoke_request_404_retry:
  "net (length reqs) (tool_request_of method url p) = Inr resp \<Longrightarrow> status_code resp = 404 \<Longrightarrow>
   \<not> endswith ''/'' url \<Longrightarrow>
   invoke_request net method url p tool_name reqs
     = ((case net (Suc (length reqs)) (tool_request_of method (url @ ''/'') p) of
           Inl err2 \<Rightarrow> fallback_failed_text method url 404 (url @ ''/'') err2
         | Inr resp2 \<Rightarrow>
             (if raises_for_status resp2
              then fallback_failed_text method url 404 (url @ ''/'') (http_error_str resp2)
              else success_text (request_info method (url @ ''/'') tool_name
                                 @ [(''fallback'', JStr ''trailing-slash'')]) resp2)),
        reqs @ [tool_request_of method url p, tool_request_of method (url @ ''/'') p])"
  by (simp add: invoke_request_def tool_call_def Let_def raises_for_status_404
        split: sum.splits)

text \<open>
  C7, as the code has it. When the first response of the generic tool call has status
  404 and the URL does not already end with a slash, exactly one more request is issued,
  with the same method and payload, to the URL with a slash appended, and the outcome of
  that request is returned whatever it is: the success text with the
  \<open>trailing-slash\<close> mark when it succeeds, the \<open>fallback failed\<close> error text when it raises
  or has an error status; there is no third request. When the URL already ends with a
  slash, or the error status is not 404, no retry is made: one request is issued and the
  structured \<open>http_error\<close> text is returned.
\<close>

theorem invoke_request_retries_404_once:
  "(net (length reqs) (tool_request_of method url p) = Inr resp \<and> status_code resp = 404
      \<and> \<not> endswith ''/'' url \<longrightarrow>
      snd (invoke_request net method url p tool_name reqs)
        = reqs @ [tool_request_of method url p, tool_request_of method (url @ ''/'') p]
      \<and> fst (invoke_request net method url p tool_name reqs)
        = (case net (Suc (length reqs)) (tool_request_of method (url @ ''/'') p) of
             Inl err2 \<Rightarrow> fallback_failed_text method url 404 (url @ ''/'') err2
           | Inr resp2 \<Rightarrow>
               (if raises_for_status resp2
                then fallback_failed_text method url 404 (url @ ''/'') (http_error_str resp2)
                else success_text (request_info method (url @ ''/'') tool_name
                                   @ [(''fallback'', JStr ''trailing-slash'')]) resp2)))
   \<and> (net (length reqs) (tool_request_of method url p) = Inr resp \<and> raises_for_status resp
      \<and> (status_code resp \<noteq> 404 \<or> endswith ''/'' url) \<longrightarrow>
      snd (invoke_request net method url p tool_name reqs) = reqs @ [tool_request_of method url p]
      \<and> fst (invoke_request net method url p tool_name reqs)
        = http_error_text method url tool_name resp)"
  by (simp add: invoke_request_404_retry invoke_request_http_error_no_retry)

lemma example_status_404: "status_code (example_response 404) = 404"
  by (simp add: example_response_def)

lemma example_raises_500: "raises_for_status (example_response 500)"
  by (simp add: example_response_def raises_for_status_def)

lemma not_endswith_example: "\<not> endswith ''/'' ''http://h/tools/x''"
  by code_simp

text \<open>
  A 404 on \<open>http://h/tools/x\<close> followed by a 200 on \<open>http://h/tools/x/\<close>, and a 500, which
  is not retried.
\<close>

theorem invoke_request_retries_404_once_witness:
  "map tr_url (snd (invoke_request (status_then 404 200) ''POST'' ''http://h/tools/x''
                      \<lparr>tp_input = Some ''hi'', tp_params = None\<rparr> (JStr ''t'') []))
     = [''http://h/tools/x'', ''http://h/tools/x/'']
   \<and> fst (invoke_request (status_then 404 200) ''POST'' ''http://h/tools/x''
            \<lparr>tp_input = Some ''hi'', tp_params = None\<rparr> (JStr ''t'') [])
     = success_text (request_info ''POST'' ''http://h/tools/x/'' (JStr ''t'')
                     @ [(''fallback'', JStr ''trailing-slash'')]) (example_response 200)
   \<and> map tr_url (snd (invoke_request (status_then 500 200) ''POST'' ''http://h/tools/x''
                        \<lparr>tp_input = Some ''hi'', tp_params = None\<rparr> (JStr ''t'') []))
     = [''http://h/tools/x'']
   \<and> fst (invoke_request (status_then 500 200) ''POST'' ''http://h/tools/x''
            \<lparr>tp_input = Some ''hi'', tp_params = None\<rparr> (JStr ''t'') [])
     = http_error_text ''POST'' ''http://h/tools/x'' (JStr ''t'') (example_response 500)"
proof -
  note T1 = invoke_request_retries_404_once [of "status_then 404 200" "[]" "''POST''"
      "''http://h/tools/x''" "\<lparr>tp_input = Some ''hi'', tp_params = None\<rparr>" "example_response 404"
      "JStr ''t''"]
  note T2 = invoke_request_retries_404_once [of "status_then 500 200" "[]" "''POST''"
      "''http://h/tools/x''" "\<lparr>tp_input = Some ''hi'', tp_params = None\<rparr>" "example_response 500"
      "JStr ''t''"]
  have ok: "\<not> raises_for_status (example_response 200)"
    by (simp add: example_response_def raises_for_status_def)
  have s5: "status_code (example_response 500) \<noteq> 404"
    by (simp add: example_response_def)
  have a: "snd (invoke_request (status_then 404 200) ''POST'' ''http://h/tools/x''
                      \<lparr>tp_input = Some ''hi'', tp_params = None\<rparr> (JStr ''t'') [])
      = [tool_request_of ''POST'' ''http://h/tools/x'' \<lparr>tp_input = Some ''hi'', tp_params = None\<rparr>,
         tool_request_of ''POST'' (''http://h/tools/x'' @ ''/'')
           \<lparr>tp_input = Some ''hi'', tp_params = None\<rparr>]"
    "fst (invoke_request (status_then 404 200) ''POST'' ''http://h/tools/x''
            \<lparr>tp_input = Some ''hi'', tp_params = None\<rparr> (JStr ''t'') [])
     = success_text (request_info ''POST'' (''http://h/tools/x'' @ ''/'') (JStr ''t'')
                     @ [(''fallback'', JStr ''trailing-slash'')]) (example_response 200)"
    using T1 example_status_404 not_endswith_example ok by (simp_all add: status_then_def)
  have b: "snd (invoke_request (status_then 500 200) ''POST'' ''http://h/tools/x''
                        \<lparr>tp_input = Some ''hi'', tp_params = None\<rparr> (JStr ''t'') [])
      = [tool_request_of ''POST'' ''http://h/tools/x'' \<lparr>tp_input = Some ''hi'', tp_params = None\<rparr>]"
    "fst (invoke_request (status_then 500 200) ''POST'' ''http://h/tools/x''
            \<lparr>tp_input = Some ''hi'', tp_params = None\<rparr> (JStr ''t'') [])
     = http_error_text ''POST'' ''http://h/tools/x'' (JStr ''t'') (example_response 500)"
    using T2 example_raises_500 s5 by (simp_all add: status_then_def)
  show ?thesis
    by (simp add: a b tool_request_of_def)
qed

text \<open>
  The claim as stated fails for a selection whose path ends with a slash: the URL is
  \<open>http://h/tools/x/\<close>, the response has status 404, and no retry is made; the single
  request is answered with the \<open>http_error\<close> text.
\<close>

theorem invoke_core_404_no_retry_counterexample:
  "join_url ''http://h'' ''/x/'' ''/tools'' = ''http://h/tools/x/''
   \<and> status_code (example_response 404) = 404
   \<and> map tr_url (snd (invoke_core (status_then 404 200) (example_inputs ''/x/'') []))
      = [''http://h/tools/x/'']
   \<and> fst (invoke_core (status_then 404 200) (example_inputs ''/x/'') [])
      = Inr (http_error_text ''POST'' ''http://h/tools/x/'' (JStr ''t'') (example_response 404),
             JStr ''t'')"
  by code_simp

section \<open>Properties of the router's key dropdown\<close>

lemma extract_keys_of_object_text:
  "py_strip c \<noteq> [] \<Longrightarrow> loads c = Some (JObj obj) \<Longrightarrow>
   extract_json_keys_from_candidate loads (JStr c) = map fst obj"
  by (simp add: extract_json_keys_from_candidate_def)

lemma extract_keys_of_plain_object:
  "map_of obj ''text'' = None \<Longrightarrow> map_of obj ''data'' = None \<Longrightarrow>
   extract_json_keys_from_candidate loads (JObj obj) = map fst obj"
  by (simp add: extract_json_keys_from_candidate_def jget_def str_nonblank_def)

lemma default_key_cases:
  "default_key ks = (if ''name'' \<in> set ks then ''name'' else if ks = [] then [] else hd ks)"
  by (cases ks) (simp_all add: default_key_def)

lemma router_update_with_dropdown:
  assumes "rc_key_for_prompt bc = Some d"
  shows "rc_key_for_prompt (router_update_build_config loads bc fv fn)
     = Some (d\<lparr>dd_options := router_keys loads bc fv fn,
              dd_value := (if dd_value d = [] \<or> dd_value d \<notin> set (router_keys loads bc fv fn)
                           then default_key (router_keys loads bc fv fn) else dd_value d)\<rparr>)"
  using assms by (simp add: router_update_build_config_def Let_def)

text \<open>
  C9, as the code has it. Let \<open>ks\<close> be the keys extracted from the candidate value, and let
  the build configuration have its key dropdown, with the previous selection \<open>dd_value d\<close>.
  \<^item> When \<open>ks\<close> is not empty, the dropdown's options become \<open>ks\<close>; a previous selection
    that is among them is kept, and otherwise (no selection, or one that is no longer a
    key) the selection becomes \<open>name\<close> when \<open>name\<close> is a key and the first key when it is
    not.
  \<^item> When \<open>ks\<close> is empty (the extracted object has no keys, or nothing could be
    extracted), the options become the four usual keys \<open>name\<close>, \<open>url_path\<close>,
    \<open>description\<close>, \<open>base_url\<close>, and a selection that is not among them becomes \<open>name\<close>.
  The extracted keys of a text that parses to an object, and of an object passed
  directly (without \<open>text\<close> and \<open>data\<close> entries), are that object's keys; for
  \<open>{"name":"a","url_path":"b"}\<close> the default is \<open>name\<close>, for \<open>{"url_path":"b"}\<close> it is
  \<open>url_path\<close>.
\<close>

theorem router_dropdown_keys_and_default:
  assumes "rc_key_for_prompt bc = Some d"
    and "ks = extract_json_keys_from_candidate loads (router_candidate bc fv fn)"
  shows "(\<exists>d'. rc_key_for_prompt (router_update_build_config loads bc fv fn) = Some d'
           \<and> (ks \<noteq> [] \<longrightarrow>
                dd_options d' = ks
                \<and> (dd_value d \<noteq> [] \<and> dd_value d \<in> set ks \<longrightarrow> dd_value d' = dd_value d)
                \<and> (dd_value d = [] \<or> dd_value d \<notin> set ks \<longrightarrow>
                     (''name'' \<in> set ks \<longrightarrow> dd_value d' = ''name'')
                     \<and> (''name'' \<notin> set ks \<longrightarrow> dd_value d' = hd ks)))
           \<and> (ks = [] \<longrightarrow>
                dd_options d' = [''name'', ''url_path'', ''description'', ''base_url'']
                \<and> (dd_value d \<in> set [''name'', ''url_path'', ''description'', ''base_url'']
                     \<longrightarrow> dd_value d' = dd_value d)
                \<and> (dd_value d \<notin> set [''name'', ''url_path'', ''description'', ''base_url'']
                     \<longrightarrow> dd_value d' = ''name'')))
       \<and> (py_strip c \<noteq> [] \<and> loads c = Some (JObj obj) \<longrightarrow>
           extract_json_keys_from_candidate loads (JStr c) = map fst obj)
       \<and> (map_of obj ''text'' = None \<and> map_of obj ''data'' = None \<longrightarrow>
           extract_json_keys_from_candidate loads (JObj obj) = map fst obj)
       \<and> default_key (extract_json_keys_from_candidate loads
                        (JObj [(''name'', JStr ''a''), (''url_path'', JStr ''b'')])) = ''name''
       \<and> default_key (extract_json_keys_from_candidate loads
                        (JObj [(''url_path'', JStr ''b'')])) = ''url_path''"
proof -
  have rk: "router_keys loads bc fv fn = (if ks = [] then fallback_keys else ks)"
    using assms(2) by (simp add: router_keys_def Let_def)
  have A: "\<exists>d'. rc_key_for_prompt (router_update_build_config loads bc fv fn) = Some d'
           \<and> (ks \<noteq> [] \<longrightarrow>
                dd_options d' = ks
                \<and> (dd_value d \<noteq> [] \<and> dd_value d \<in> set ks \<longrightarrow> dd_value d' = dd_value d)
                \<and> (dd_value d = [] \<or> dd_value d \<notin> set ks \<longrightarrow>
                     (''name'' \<in> set ks \<longrightarrow> dd_value d' = ''name'')
                     \<and> (''name'' \<notin> set ks \<longrightarrow> dd_value d' = hd ks)))
           \<and> (ks = [] \<longrightarrow>
                dd_options d' = [''name'', ''url_path'', ''description'', ''base_url'']
                \<and> (dd_value d \<in> set [''name'', ''url_path'', ''description'', ''base_url'']
                     \<longrightarrow> dd_value d' = dd_value d)
                \<and> (dd_value d \<notin> set [''name'', ''url_path'', ''description'', ''base_url'']
                     \<longrightarrow> dd_value d' = ''name''))"
  proof (cases "ks = []")
    case True
    then show ?thesis
      by (simp add: router_update_with_dropdown [OF assms(1)] rk fallback_keys_def
            default_key_def)
  next
    case False
    then show ?thesis
      by (simp add: router_update_with_dropdown [OF assms(1)] rk default_key_cases)
  qed
  have B: "py_strip c \<noteq> [] \<and> loads c = Some (JObj obj) \<longrightarrow>
           extract_json_keys_from_candidate loads (JStr c) = map fst obj"
    by (simp add: extract_keys_of_object_text)
  have C: "map_of obj ''text'' = None \<and> map_of obj ''data'' = None \<longrightarrow>
           extract_json_keys_from_candidate loads (JObj obj) = map fst obj"
    by (simp add: extract_keys_of_plain_object)
  have D: "default_key (extract_json_keys_from_candidate loads
                        (JObj [(''name'', JStr ''a''), (''url_path'', JStr ''b'')])) = ''name''"
    by (simp add: extract_keys_of_plain_object default_key_def)
  have E: "default_key (extract_json_keys_from_candidate loads
                        (JObj [(''url_path'', JStr ''b'')])) = ''url_path''"
    by (simp add: extract_keys_of_plain_object default_key_def)
  show ?thesis
    by (intro conjI A B C D E)
qed

lemma router_candidate_example:
  "router_candidate (example_router_config key) v (Some ''tool_message'')
     = (if v = JNull then JNull else v)"
  by (simp add: router_candidate_def example_router_config_def)

text \<open>
  The two objects of the claim, passed as the changed value: with no previous selection
  the defaults are \<open>name\<close> and \<open>url_path\<close>; a previous selection \<open>url_path\<close> is kept
  when it is still a key.
\<close>

theorem router_dropdown_keys_and_default_witness:
  "map_option dd_options (rc_key_for_prompt
        (router_update_build_config loads_empty_object (example_router_config [])
           (JObj [(''name'', JStr ''a''), (''url_path'', JStr ''b'')]) (Some ''tool_message''))) = Some [''name'', ''url_path'']
   \<and> map_option dd_value (rc_key_for_prompt
        (router_update_build_config loads_empty_object (example_router_config [])
           (JObj [(''name'', JStr ''a''), (''url_path'', JStr ''b'')]) (Some ''tool_message''))) = Some ''name''
   \<and> map_option dd_options (rc_key_for_prompt
        (router_update_build_config loads_empty_object (example_router_config ''gone'')
           (JObj [(''url_path'', JStr ''b'')]) (Some ''tool_message''))) = Some [''url_path'']
   \<and> map_option dd_value (rc_key_for_prompt
        (router_update_build_config loads_empty_object (example_router_config ''gone'')
           (JObj [(''url_path'', JStr ''b'')]) (Some ''tool_message''))) = Some ''url_path''
   \<and> map_option dd_options (rc_key_for_prompt
        (router_update_build_config loads_empty_object (example_router_config ''url_path'')
           (JObj [(''name'', JStr ''a''), (''url_path'', JStr ''b'')]) (Some ''tool_message''))) = Some [''name'', ''url_path'']
   \<and> map_option dd_value (rc_key_for_prompt
        (router_update_build_config loads_empty_object (example_router_config ''url_path'')
           (JObj [(''name'', JStr ''a''), (''url_path'', JStr ''b'')]) (Some ''tool_message''))) = Some ''url_path''"
proof -
  have k2: "extract_json_keys_from_candidate loads_empty_object
              (JObj [(''name'', JStr ''a''), (''url_path'', JStr ''b'')]) = [''name'', ''url_path'']"
    by (simp add: extract_keys_of_plain_object)
  have k1: "extract_json_keys_from_candidate loads_empty_object
              (JObj [(''url_path'', JStr ''b'')]) = [''url_path'']"
    by (simp add: extract_keys_of_plain_object)
  have dd: "rc_key_for_prompt (example_router_config key)
              = Some \<lparr>dd_options = [], dd_value = key\<rparr>" for key
    by (simp add: example_router_config_def)
  have w1: "map_option dd_options (rc_key_for_prompt
        (router_update_build_config loads_empty_object (example_router_config [])
           (JObj [(''name'', JStr ''a''), (''url_path'', JStr ''b'')]) (Some ''tool_message''))) = Some [''name'', ''url_path'']
   \<and> map_option dd_value (rc_key_for_prompt
        (router_update_build_config loads_empty_object (example_router_config [])
           (JObj [(''name'', JStr ''a''), (''url_path'', JStr ''b'')]) (Some ''tool_message''))) = Some ''name''"
    using router_dropdown_keys_and_default [OF dd [of "[]"],
        of "[''name'', ''url_path'']" loads_empty_object "JObj [(''name'', JStr ''a''), (''url_path'', JStr ''b'')]" "Some ''tool_message''", THEN conjunct1]
    by (auto simp: router_candidate_example k2)
  have w2: "map_option dd_options (rc_key_for_prompt
        (router_update_build_config loads_empty_object (example_router_config ''gone'')
           (JObj [(''url_path'', JStr ''b'')]) (Some ''tool_message''))) = Some [''url_path'']
   \<and> map_option dd_value (rc_key_for_prompt
        (router_update_build_config loads_empty_object (example_router_config ''gone'')
           (JObj [(''url_path'', JStr ''b'')]) (Some ''tool_message''))) = Some ''url_path''"
    using router_dropdown_keys_and_default [OF dd [of "''gone''"],
        of "[''url_path'']" loads_empty_object "JObj [(''url_path'', JStr ''b'')]" "Some ''tool_message''", THEN conjunct1]
    by (auto simp: router_candidate_example k1)
  have w3: "map_option dd_options (rc_key_for_prompt
        (router_update_build_config loads_empty_object (example_router_config ''url_path'')
           (JObj [(''name'', JStr ''a''), (''url_path'', JStr ''b'')]) (Some ''tool_message''))) = Some [''name'', ''url_path'']
   \<and> map_option dd_value (rc_key_for_prompt
        (router_update_build_config loads_empty_object (example_router_config ''url_path'')
           (JObj [(''name'', JStr ''a''), (''url_path'', JStr ''b'')]) (Some ''tool_message''))) = Some ''url_path''"
    using router_dropdown_keys_and_default [OF dd [of "''url_path''"],
        of "[''name'', ''url_path'']" loads_empty_object "JObj [(''name'', JStr ''a''), (''url_path'', JStr ''b'')]" "Some ''tool_message''", THEN conjunct1]
    by (auto simp: router_candidate_example k2)
  show ?thesis
    using w1 w2 w3 by blast
qed

text \<open>
  The claim as stated fails for the empty object, passed directly or as the text \<open>{}\<close>:
  it has no keys, and the dropdown is populated with the four usual keys, with \<open>name\<close>
  selected.
\<close>

theorem router_empty_object_counterexample:
  "extract_json_keys_from_candidate loads_empty_object (JObj []) = []
   \<and> rc_key_for_prompt
       (router_update_build_config loads_empty_object (example_router_config [])
          (JObj []) (Some ''tool_message''))
     = Some \<lparr>dd_options = [''name'', ''url_path'', ''description'', ''base_url''],
             dd_value = ''name''\<rparr>
   \<and> loads_empty_object ''{}'' = Some (JObj [])
   \<and> extract_json_keys_from_candidate loads_empty_object (JStr ''{}'') = []
   \<and> rc_key_for_prompt
       (router_update_build_config loads_empty_object (example_router_config [])
          (JStr ''{}'') (Some ''tool_message''))
     = Some \<lparr>dd_options = [''name'', ''url_path'', ''description'', ''base_url''],
             dd_value = ''name''\<rparr>"
  by code_simp

end

